theory Spec2Isabelle
  imports Main
begin

section \<open>Python values, dictionaries and exceptions\<close>

text \<open>
  The module \<^verbatim>\<open>tempest/clients.py\<close> wires REST clients from configuration values.
  Configuration values and client parameters are scalars: \<^verbatim>\<open>None\<close>, booleans,
  integers and strings. \<open>truthy\<close> is Python's truth test, as used by \<^verbatim>\<open>if _value:\<close>,
  \<^verbatim>\<open>if CONF.identity.uri:\<close> and \<^verbatim>\<open>a or b\<close>.
\<close>

datatype pyval = PNone | PBool bool | PInt int | PStr string

fun truthy :: "pyval \<Rightarrow> bool" where
  "truthy PNone = False"
| "truthy (PBool b) = b"
| "truthy (PInt i) = (i \<noteq> 0)"
| "truthy (PStr s) = (s \<noteq> [])"

definition py_or :: "pyval \<Rightarrow> pyval \<Rightarrow> pyval" where
  "py_or a b = (if truthy a then a else b)"

type_synonym dict = "string \<rightharpoonup> pyval"

text \<open>\<^verbatim>\<open>d.get(k)\<close>: the value stored under \<open>k\<close>, or \<^verbatim>\<open>None\<close>.\<close>

definition dict_get :: "dict \<Rightarrow> string \<Rightarrow> pyval" where
  "dict_get d k = (case d k of None \<Rightarrow> PNone | Some v \<Rightarrow> v)"

text \<open>
  The exceptions this module raises or lets through. \<open>KeyError\<close> comes from
  \<^verbatim>\<open>self.parameters['...']\<close>; \<open>TypeError\<close> from a call that passes a keyword both
  explicitly and through \<^verbatim>\<open>**params\<close>; \<open>OtherError\<close> stands for any other exception
  of a collaborator.
\<close>

datatype error =
    KeyError string
  | TypeError string
  | InvalidConfiguration string
  | InvalidCredentials string
  | UnknownServiceClient string
  | OtherError string

section \<open>Credentials and the configuration\<close>

text \<open>
  What a caller can pass as \<^verbatim>\<open>credentials\<close>: \<^verbatim>\<open>None\<close>, a Keystone v2 or v3 credentials
  object (with its attributes), or an object of an unrelated class (named).
\<close>

datatype pyobj =
    PyNone
  | KeystoneV2Credentials dict
  | KeystoneV3Credentials dict
  | OtherObject string

text \<open>\<^verbatim>\<open>isinstance(credentials, auth.KeystoneV3Credentials)\<close>\<close>

fun isinstance_KeystoneV3Credentials :: "pyobj \<Rightarrow> bool" where
  "isinstance_KeystoneV3Credentials (KeystoneV3Credentials _) = True"
| "isinstance_KeystoneV3Credentials _ = False"

datatype auth_provider_class = KeystoneV2AuthProvider | KeystoneV3AuthProvider

text \<open>
  The options of \<^verbatim>\<open>CONF\<close> that the module reads, one field per option
  (\<^verbatim>\<open>CONF.identity.uri\<close> is \<open>identity_uri\<close>, and so on), and what the module gets from
  its collaborators: \<open>default_params\<close>, the dictionary that
  \<^verbatim>\<open>config.service_client_config()\<close> returns when called without a service name (the
  class attribute \<^verbatim>\<open>Manager.default_params\<close> and the local \<^verbatim>\<open>default_params\<close> of
  \<^verbatim>\<open>get_auth_provider\<close>); \<open>service_client_config\<close>, the same function called with a
  service name, which returns a dictionary or raises; and the list
  \<^verbatim>\<open>service_clients.tempest_modules()\<close>.
\<close>

record conf =
  identity_uri :: pyval
  identity_uri_v3 :: pyval
  identity_region :: pyval
  identity_v2_admin_endpoint_type :: pyval
  identity_v2_public_endpoint_type :: pyval
  identity_v3_endpoint_type :: pyval
  identity_feature_enabled_api_v2 :: bool
  identity_feature_enabled_api_v3 :: bool
  service_available_glance :: bool
  compute_build_interval :: pyval
  compute_build_timeout :: pyval
  compute_feature_enabled_enable_instance_password :: pyval
  baremetal_catalog_type :: pyval
  baremetal_endpoint_type :: pyval
  orchestration_catalog_type :: pyval
  orchestration_region :: pyval
  orchestration_endpoint_type :: pyval
  orchestration_build_interval :: pyval
  orchestration_build_timeout :: pyval
  data_processing_catalog_type :: pyval
  data_processing_endpoint_type :: pyval
  volume_volume_size :: pyval
  default_params :: dict
  service_client_config :: "string \<Rightarrow> error + dict"
  tempest_modules :: "string list"

section \<open>Selecting the auth provider class\<close>

definition get_auth_provider_class :: "conf \<Rightarrow> pyobj \<Rightarrow> auth_provider_class \<times> pyval" where
  "get_auth_provider_class CONF credentials =
     (if isinstance_KeystoneV3Credentials credentials
      then (KeystoneV3AuthProvider, identity_uri_v3 CONF)
      else (KeystoneV2AuthProvider, identity_uri CONF))"

section \<open>Building an auth provider\<close>

text \<open>
  Calling \<^verbatim>\<open>f(..., k1=v1, ..., **params)\<close>: the keyword arguments the callee receives,
  or the \<^verbatim>\<open>TypeError\<close> Python raises at the call when a keyword given explicitly is
  also a key of \<^verbatim>\<open>params\<close>.
\<close>

definition call_kw :: "(string \<times> pyval) list \<Rightarrow> dict \<Rightarrow> error + dict" where
  "call_kw explicit params =
     (case find (\<lambda>k. params k \<noteq> None) (map fst explicit) of
        Some k \<Rightarrow> Inl (TypeError k)
      | None \<Rightarrow> Inr (params ++ map_of explicit))"

text \<open>
  An auth provider object, as far as this module sees it: the class chosen, the
  arguments of its constructor call, and how often \<^verbatim>\<open>set_auth\<close> has been called on
  it. The constructor and \<^verbatim>\<open>set_auth\<close> themselves belong to \<^verbatim>\<open>tempest.lib.auth\<close>; the
  model records the calls made here.
\<close>

record provider =
  provider_class :: auth_provider_class
  provider_credentials :: pyobj
  provider_auth_url :: pyval
  provider_kwargs :: dict
  set_auth_calls :: nat

definition new_provider :: "auth_provider_class \<Rightarrow> pyobj \<Rightarrow> pyval \<Rightarrow> dict \<Rightarrow> provider" where
  "new_provider c credentials auth_url kw =
     \<lparr>provider_class = c, provider_credentials = credentials,
      provider_auth_url = auth_url, provider_kwargs = kw, set_auth_calls = 0\<rparr>"

definition set_auth :: "provider \<Rightarrow> provider" where
  "set_auth p = p\<lparr>set_auth_calls := Suc (set_auth_calls p)\<rparr>"

definition get_auth_provider :: "conf \<Rightarrow> pyobj \<Rightarrow> bool \<Rightarrow> pyval \<Rightarrow> error + provider" where
  "get_auth_provider CONF credentials pre_auth scope =
     (if credentials = PyNone
      then Inl (InvalidCredentials ''Credentials must be specified'')
      else
        (case get_auth_provider_class CONF credentials of
           (auth_provider_class, auth_url) \<Rightarrow>
             (case call_kw [(''scope'', scope)] (default_params CONF) of
                Inl e \<Rightarrow> Inl e
              | Inr kw \<Rightarrow>
                  let auth_provider0 = new_provider auth_provider_class credentials auth_url kw
                  in Inr (if pre_auth then set_auth auth_provider0 else auth_provider0))))"

section \<open>The Manager and its clients\<close>

text \<open>
  Parameter dictionaries are Python objects that several names can refer to, so they
  live in a store: an address is an index into the list of dictionaries allocated so
  far. \<^verbatim>\<open>copy.copy\<close> and \<^verbatim>\<open>copy.deepcopy\<close> allocate a new dictionary with the same
  entries (the values are scalars, so both copies behave alike), and
  \<^verbatim>\<open>d[k] = v\<close> updates the dictionary at the address of \<open>d\<close>. A Python object only
  holds addresses of objects that exist, so an address \<open>d\<close> in use satisfies
  \<open>d < length h\<close>; the theorems that read the entries of a dictionary say so.
\<close>

type_synonym heap = "dict list"

definition dict_copy :: "heap \<Rightarrow> nat \<Rightarrow> nat \<times> heap" where
  "dict_copy h d = (length h, h @ [h ! d])"

definition dict_setitem :: "heap \<Rightarrow> nat \<Rightarrow> string \<Rightarrow> pyval \<Rightarrow> heap" where
  "dict_setitem h d k v = h[d := (h ! d)(k \<mapsto> v)]"

text \<open>
  A client object is what its constructor call was given: the class, the positional
  arguments (a reference to an auth provider object, or a scalar) and the keyword
  arguments (\<^verbatim>\<open>**params\<close> passes the entries of the dictionary at the time of the call).
  The client classes themselves are collaborators outside this module.
\<close>

datatype arg = AuthRef nat | Val pyval

record client =
  client_class :: string
  client_args :: "arg list"
  client_kwargs :: dict

text \<open>
  The Manager object: \<^verbatim>\<open>self.auth_provider\<close> (the address of the provider object),
  \<^verbatim>\<open>self.parameters\<close> (service name to the address of its parameter dictionary) and
  the client attributes set so far, by attribute name.
\<close>

record manager =
  auth_provider :: nat
  parameters :: "string \<rightharpoonup> nat"
  attrs :: "string \<rightharpoonup> client"

text \<open>
  A method either completes or raises; both leave the object and the store in the
  state reached.
\<close>

datatype outcome = Done manager heap | Raised error manager heap

fun then_do :: "outcome \<Rightarrow> (manager \<Rightarrow> heap \<Rightarrow> outcome) \<Rightarrow> outcome" where
  "then_do (Done self h) f = f self h"
| "then_do (Raised e self h) f = Raised e self h"

fun final_self :: "outcome \<Rightarrow> manager" where
  "final_self (Done self h) = self"
| "final_self (Raised e self h) = self"

fun final_heap :: "outcome \<Rightarrow> heap" where
  "final_heap (Done self h) = h"
| "final_heap (Raised e self h) = h"

fun raised :: "outcome \<Rightarrow> error option" where
  "raised (Done self h) = None"
| "raised (Raised e self h) = Some e"

definition setattr :: "string \<Rightarrow> client \<Rightarrow> manager \<Rightarrow> manager" where
  "setattr name c self = self\<lparr>attrs := (attrs self)(name \<mapsto> c)\<rparr>"

text \<open>\<^verbatim>\<open>self.name = Class(self.auth_provider, **params)\<close>, for each pair of a list in turn.\<close>

fun construct_all :: "(string \<times> string) list \<Rightarrow> dict \<Rightarrow> manager \<Rightarrow> manager" where
  "construct_all [] params self = self"
| "construct_all ((name, class) # rest) params self =
     construct_all rest params
       (setattr name
          \<lparr>client_class = class, client_args = [AuthRef (auth_provider self)],
           client_kwargs = params\<rparr> self)"

text \<open>\<^verbatim>\<open>self.name = Class(args, k1=v1, ..., **params)\<close>\<close>

definition construct ::
  "string \<Rightarrow> string \<Rightarrow> arg list \<Rightarrow> (string \<times> pyval) list \<Rightarrow> dict \<Rightarrow> manager \<Rightarrow> heap \<Rightarrow> outcome" where
  "construct name class args explicit params self h =
     (case call_kw explicit params of
        Inl e \<Rightarrow> Raised e self h
      | Inr kw \<Rightarrow>
          Done (setattr name \<lparr>client_class = class, client_args = args, client_kwargs = kw\<rparr> self) h)"

subsection \<open>Network clients\<close>

definition network_clients :: "(string \<times> string) list" where
  "network_clients =
     [(''network_agents_client'', ''network.AgentsClient''),
      (''network_extensions_client'', ''network.ExtensionsClient''),
      (''networks_client'', ''network.NetworksClient''),
      (''subnetpools_client'', ''network.SubnetpoolsClient''),
      (''subnets_client'', ''network.SubnetsClient''),
      (''ports_client'', ''network.PortsClient''),
      (''network_quotas_client'', ''network.QuotasClient''),
      (''floating_ips_client'', ''network.FloatingIPsClient''),
      (''metering_labels_client'', ''network.MeteringLabelsClient''),
      (''metering_label_rules_client'', ''network.MeteringLabelRulesClient''),
      (''routers_client'', ''network.RoutersClient''),
      (''security_group_rules_client'', ''network.SecurityGroupRulesClient''),
      (''security_groups_client'', ''network.SecurityGroupsClient''),
      (''network_versions_client'', ''network.NetworkVersionsClient'')]"

definition set_network_clients :: "manager \<Rightarrow> heap \<Rightarrow> outcome" where
  "set_network_clients self h =
     (case parameters self ''network'' of
        None \<Rightarrow> Raised (KeyError ''network'') self h
      | Some params \<Rightarrow> Done (construct_all network_clients (h ! params) self) h)"

subsection \<open>Image clients\<close>

definition image_clients :: "(string \<times> string) list" where
  "image_clients =
     [(''image_client'', ''image.v1.ImagesClient''),
      (''image_member_client'', ''image.v1.ImageMembersClient''),
      (''image_client_v2'', ''image.v2.ImagesClient''),
      (''image_member_client_v2'', ''image.v2.ImageMembersClient''),
      (''namespaces_client'', ''image.v2.NamespacesClient''),
      (''resource_types_client'', ''image.v2.ResourceTypesClient''),
      (''schemas_client'', ''image.v2.SchemasClient'')]"

definition set_image_clients :: "conf \<Rightarrow> manager \<Rightarrow> heap \<Rightarrow> outcome" where
  "set_image_clients CONF self h =
     (if service_available_glance CONF
      then (case parameters self ''image'' of
              None \<Rightarrow> Raised (KeyError ''image'') self h
            | Some params \<Rightarrow> Done (construct_all image_clients (h ! params) self) h)
      else Done self h)"

subsection \<open>Compute clients\<close>

definition compute_clients_before_servers :: "(string \<times> string) list" where
  "compute_clients_before_servers =
     [(''agents_client'', ''compute.AgentsClient''),
      (''compute_networks_client'', ''compute.NetworksClient''),
      (''migrations_client'', ''compute.MigrationsClient''),
      (''security_group_default_rules_client'', ''compute.SecurityGroupDefaultRulesClient''),
      (''certificates_client'', ''compute.CertificatesClient'')]"

definition compute_clients_after_servers :: "(string \<times> string) list" where
  "compute_clients_after_servers =
     [(''server_groups_client'', ''compute.ServerGroupsClient''),
      (''limits_client'', ''compute.LimitsClient''),
      (''compute_images_client'', ''compute.ImagesClient''),
      (''keypairs_client'', ''compute.KeyPairsClient''),
      (''quotas_client'', ''compute.QuotasClient''),
      (''quota_classes_client'', ''compute.QuotaClassesClient''),
      (''flavors_client'', ''compute.FlavorsClient''),
      (''extensions_client'', ''compute.ExtensionsClient''),
      (''floating_ip_pools_client'', ''compute.FloatingIPPoolsClient''),
      (''floating_ips_bulk_client'', ''compute.FloatingIPsBulkClient''),
      (''compute_floating_ips_client'', ''compute.FloatingIPsClient''),
      (''compute_security_group_rules_client'', ''compute.SecurityGroupRulesClient''),
      (''compute_security_groups_client'', ''compute.SecurityGroupsClient''),
      (''interfaces_client'', ''compute.InterfacesClient''),
      (''fixed_ips_client'', ''compute.FixedIPsClient''),
      (''availability_zone_client'', ''compute.AvailabilityZoneClient''),
      (''aggregates_client'', ''compute.AggregatesClient''),
      (''services_client'', ''compute.ServicesClient''),
      (''tenant_usages_client'', ''compute.TenantUsagesClient''),
      (''hosts_client'', ''compute.HostsClient''),
      (''hypervisor_client'', ''compute.HypervisorClient''),
      (''instance_usages_audit_log_client'', ''compute.InstanceUsagesAuditLogClient''),
      (''tenant_networks_client'', ''compute.TenantNetworksClient''),
      (''baremetal_nodes_client'', ''compute.BaremetalNodesClient'')]"

definition volume_proxy_clients :: "(string \<times> string) list" where
  "volume_proxy_clients =
     [(''volumes_extensions_client'', ''compute.VolumesClient''),
      (''compute_versions_client'', ''compute.VersionsClient''),
      (''snapshots_extensions_client'', ''compute.SnapshotsClient'')]"

text \<open>
  The loop \<^verbatim>\<open>for _key in ('build_interval', 'build_timeout')\<close>: each round reads
  \<^verbatim>\<open>self.parameters['volume'].get(_key)\<close> and stores a truthy value into
  \<^verbatim>\<open>params_volume\<close>.
\<close>

fun override_timeouts :: "string list \<Rightarrow> manager \<Rightarrow> nat \<Rightarrow> heap \<Rightarrow> error option \<times> heap" where
  "override_timeouts [] self params_volume h = (None, h)"
| "override_timeouts (key # keys) self params_volume h =
     (case parameters self ''volume'' of
        None \<Rightarrow> (Some (KeyError ''volume''), h)
      | Some volume \<Rightarrow>
          let val = dict_get (h ! volume) key
          in override_timeouts keys self params_volume
               (if truthy val then dict_setitem h params_volume key val else h))"

definition set_compute_clients :: "conf \<Rightarrow> manager \<Rightarrow> heap \<Rightarrow> outcome" where
  "set_compute_clients CONF self h =
     (case parameters self ''compute'' of
        None \<Rightarrow> Raised (KeyError ''compute'') self h
      | Some params \<Rightarrow>
          let self = construct_all compute_clients_before_servers (h ! params) self
          in then_do
            (construct ''servers_client'' ''compute.ServersClient''
               [AuthRef (auth_provider self)]
               [(''enable_instance_password'',
                 compute_feature_enabled_enable_instance_password CONF)]
               (h ! params) self h)
            (\<lambda>self h.
               let self = construct_all compute_clients_after_servers (h ! params) self
               in (case dict_copy h params of
                     (params_volume, h) \<Rightarrow>
                       (case override_timeouts [''build_interval'', ''build_timeout'']
                               self params_volume h of
                          (Some e, h) \<Rightarrow> Raised e self h
                        | (None, h) \<Rightarrow>
                            Done (construct_all volume_proxy_clients (h ! params_volume) self) h))))"

subsection \<open>Identity clients\<close>

definition identity_v2_admin_clients :: "(string \<times> string) list" where
  "identity_v2_admin_clients =
     [(''endpoints_client'', ''identity.v2.EndpointsClient''),
      (''identity_client'', ''identity.v2.IdentityClient''),
      (''tenants_client'', ''identity.v2.TenantsClient''),
      (''roles_client'', ''identity.v2.RolesClient''),
      (''users_client'', ''identity.v2.UsersClient''),
      (''identity_services_client'', ''identity.v2.ServicesClient'')]"

definition identity_v2_public_clients :: "(string \<times> string) list" where
  "identity_v2_public_clients =
     [(''identity_public_client'', ''identity.v2.IdentityClient''),
      (''tenants_public_client'', ''identity.v2.TenantsClient''),
      (''users_public_client'', ''identity.v2.UsersClient'')]"

definition identity_v3_clients :: "(string \<times> string) list" where
  "identity_v3_clients =
     [(''domains_client'', ''identity.v3.DomainsClient''),
      (''identity_v3_client'', ''identity.v3.IdentityClient''),
      (''trusts_client'', ''identity.v3.TrustsClient''),
      (''users_v3_client'', ''identity.v3.UsersClient''),
      (''endpoints_v3_client'', ''identity.v3.EndPointsClient''),
      (''roles_v3_client'', ''identity.v3.RolesClient''),
      (''identity_services_v3_client'', ''identity.v3.ServicesClient''),
      (''policies_client'', ''identity.v3.PoliciesClient''),
      (''projects_client'', ''identity.v3.ProjectsClient''),
      (''regions_client'', ''identity.v3.RegionsClient''),
      (''credentials_client'', ''identity.v3.CredentialsClient''),
      (''groups_client'', ''identity.v3.GroupsClient'')]"

text \<open>
  \<^verbatim>\<open>p = copy.copy(params); p['endpoint_type'] = v\<close>, then one client per pair of the
  list, each built with \<^verbatim>\<open>**p\<close>.
\<close>

definition set_identity_group ::
  "nat \<Rightarrow> pyval \<Rightarrow> (string \<times> string) list \<Rightarrow> manager \<Rightarrow> heap \<Rightarrow> outcome" where
  "set_identity_group params endpoint_type clients self h =
     (case dict_copy h params of
        (params_copy, h) \<Rightarrow>
          let h = dict_setitem h params_copy ''endpoint_type'' endpoint_type
          in Done (construct_all clients (h ! params_copy) self) h)"

definition set_identity_clients :: "conf \<Rightarrow> manager \<Rightarrow> heap \<Rightarrow> outcome" where
  "set_identity_clients CONF self h =
     (case parameters self ''identity'' of
        None \<Rightarrow> Raised (KeyError ''identity'') self h
      | Some params \<Rightarrow>
          then_do (set_identity_group params (identity_v2_admin_endpoint_type CONF)
                     identity_v2_admin_clients self h) (\<lambda>self h.
          then_do (set_identity_group params (identity_v2_public_endpoint_type CONF)
                     identity_v2_public_clients self h) (\<lambda>self h.
          then_do (set_identity_group params (identity_v3_endpoint_type CONF)
                     identity_v3_clients self h) (\<lambda>self h.
          then_do
            (if identity_feature_enabled_api_v2 CONF
             then (if truthy (identity_uri CONF)
                   then construct ''token_client'' ''identity.v2.TokenClient''
                          [Val (identity_uri CONF)] [] (default_params CONF)
                          self h
                   else Raised (InvalidConfiguration
                                  ''Identity v2 API enabled, but no identity.uri set'') self h)
             else Done self h) (\<lambda>self h.
          if identity_feature_enabled_api_v3 CONF
          then (if truthy (identity_uri_v3 CONF)
                then construct ''token_v3_client'' ''identity.v3.V3TokenClient''
                       [Val (identity_uri_v3 CONF)] [] (default_params CONF)
                       self h
                else Raised (InvalidConfiguration
                               ''Identity v3 API enabled, but no identity.uri_v3 set'') self h)
          else Done self h)))))"

subsection \<open>Volume clients\<close>

definition volume_clients_before_volumes :: "(string \<times> string) list" where
  "volume_clients_before_volumes =
     [(''volume_qos_client'', ''volume.v1.QosSpecsClient''),
      (''volume_qos_v2_client'', ''volume.v2.QosSpecsClient''),
      (''volume_services_client'', ''volume.v1.ServicesClient''),
      (''volume_services_v2_client'', ''volume.v2.ServicesClient''),
      (''backups_client'', ''volume.v1.BackupsClient''),
      (''backups_v2_client'', ''volume.v2.BackupsClient''),
      (''snapshots_client'', ''volume.v1.SnapshotsClient''),
      (''snapshots_v2_client'', ''volume.v2.SnapshotsClient'')]"

definition volume_clients_after_volumes :: "(string \<times> string) list" where
  "volume_clients_after_volumes =
     [(''volume_messages_client'', ''volume.v3.MessagesClient''),
      (''volume_types_client'', ''volume.v1.TypesClient''),
      (''volume_types_v2_client'', ''volume.v2.TypesClient''),
      (''volume_hosts_client'', ''volume.v1.HostsClient''),
      (''volume_hosts_v2_client'', ''volume.v2.HostsClient''),
      (''volume_quotas_client'', ''volume.v1.QuotasClient''),
      (''volume_quotas_v2_client'', ''volume.v2.QuotasClient''),
      (''volumes_extension_client'', ''volume.v1.ExtensionsClient''),
      (''volumes_v2_extension_client'', ''volume.v2.ExtensionsClient''),
      (''volume_availability_zone_client'', ''volume.v1.AvailabilityZoneClient''),
      (''volume_v2_availability_zone_client'', ''volume.v2.AvailabilityZoneClient'')]"

definition set_volume_clients :: "conf \<Rightarrow> manager \<Rightarrow> heap \<Rightarrow> outcome" where
  "set_volume_clients CONF self h =
     (case parameters self ''volume'' of
        None \<Rightarrow> Raised (KeyError ''volume'') self h
      | Some params \<Rightarrow>
          let self = construct_all volume_clients_before_volumes (h ! params) self
          in then_do
            (construct ''volumes_client'' ''volume.v1.VolumesClient''
               [AuthRef (auth_provider self)]
               [(''default_volume_size'', volume_volume_size CONF)] (h ! params) self h)
            (\<lambda>self h.
          then_do
            (construct ''volumes_v2_client'' ''volume.v2.VolumesClient''
               [AuthRef (auth_provider self)]
               [(''default_volume_size'', volume_volume_size CONF)] (h ! params) self h)
            (\<lambda>self h.
               Done (construct_all volume_clients_after_volumes (h ! params) self) h)))"

subsection \<open>Object storage clients\<close>

definition object_storage_clients :: "(string \<times> string) list" where
  "object_storage_clients =
     [(''account_client'', ''object_storage.AccountClient''),
      (''container_client'', ''object_storage.ContainerClient''),
      (''object_client'', ''object_storage.ObjectClient'')]"

definition set_object_storage_clients :: "manager \<Rightarrow> heap \<Rightarrow> outcome" where
  "set_object_storage_clients self h =
     (case parameters self ''object-storage'' of
        None \<Rightarrow> Raised (KeyError ''object-storage'') self h
      | Some params \<Rightarrow> Done (construct_all object_storage_clients (h ! params) self) h)"

subsection \<open>The constructor\<close>

text \<open>
  The class attribute \<^verbatim>\<open>default_params_with_timeout_values\<close>: the compute timeouts,
  updated with (so overridden by) the default parameters.
\<close>

definition default_params_with_timeout_values :: "conf \<Rightarrow> dict" where
  "default_params_with_timeout_values CONF =
     [''build_interval'' \<mapsto> compute_build_interval CONF,
      ''build_timeout'' \<mapsto> compute_build_timeout CONF] ++ default_params CONF"

text \<open>
  The body of \<^verbatim>\<open>Manager.__init__\<close> after the call of the base class constructor: the six
  builders in turn, then the four clients built in place.
\<close>

definition Manager_clients :: "conf \<Rightarrow> pyval \<Rightarrow> manager \<Rightarrow> heap \<Rightarrow> outcome" where
  "Manager_clients CONF service self h =
     then_do (set_compute_clients CONF self h) (\<lambda>self h.
     then_do (set_identity_clients CONF self h) (\<lambda>self h.
     then_do (set_volume_clients CONF self h) (\<lambda>self h.
     then_do (set_object_storage_clients self h) (\<lambda>self h.
     then_do (set_image_clients CONF self h) (\<lambda>self h.
     then_do (set_network_clients self h) (\<lambda>self h.
     then_do
       (construct ''baremetal_client'' ''baremetal.BaremetalClient''
          [AuthRef (auth_provider self), Val (baremetal_catalog_type CONF),
           Val (identity_region CONF)]
          [(''endpoint_type'', baremetal_endpoint_type CONF)]
          (default_params_with_timeout_values CONF) self h) (\<lambda>self h.
     then_do
       (construct ''orchestration_client'' ''orchestration.OrchestrationClient''
          [AuthRef (auth_provider self), Val (orchestration_catalog_type CONF),
           Val (py_or (orchestration_region CONF) (identity_region CONF))]
          [(''endpoint_type'', orchestration_endpoint_type CONF),
           (''build_interval'', orchestration_build_interval CONF),
           (''build_timeout'', orchestration_build_timeout CONF)]
          (default_params CONF) self h) (\<lambda>self h.
     then_do
       (construct ''data_processing_client'' ''data_processing.DataProcessingClient''
          [AuthRef (auth_provider self), Val (data_processing_catalog_type CONF),
           Val (identity_region CONF)]
          [(''endpoint_type'', data_processing_endpoint_type CONF)]
          (default_params_with_timeout_values CONF) self h) (\<lambda>self h.
     construct ''negative_client'' ''negative_rest_client.NegativeRestClient''
       [AuthRef (auth_provider self), Val service] []
       (default_params CONF) self h)))))))))"

subsection \<open>Resolving the configuration\<close>

text \<open>\<^verbatim>\<open>service.split('.')[0]\<close>: the module name up to its first dot.\<close>

definition unversioned :: "string \<Rightarrow> string" where
  "unversioned service = takeWhile (\<lambda>c. c \<noteq> CHR ''.'') service"

text \<open>
  The state of the loop in \<^verbatim>\<open>_prepare_configuration\<close>: the local dictionary
  \<^verbatim>\<open>configuration\<close> (service name to the address of the dictionary fetched for it), the
  warnings logged, and the service names \<^verbatim>\<open>config.service_client_config\<close> has been
  called with, in order. Each dictionary fetched is a new object in the store.
\<close>

record prepared =
  configuration :: "string \<rightharpoonup> nat"
  warnings :: "string list"
  fetches :: "string list"

fun prepare_services ::
  "conf \<Rightarrow> string list \<Rightarrow> prepared \<Rightarrow> heap \<Rightarrow> error + prepared \<times> heap" where
  "prepare_services CONF [] st h = Inr (st, h)"
| "prepare_services CONF (service # rest) st h =
     (let service_for_config = unversioned service
      in if configuration st service_for_config \<noteq> None
         then prepare_services CONF rest st h
         else (case service_client_config CONF service_for_config of
                 Inr params \<Rightarrow>
                   prepare_services CONF rest
                     (st\<lparr>configuration :=
                           (configuration st)(service_for_config \<mapsto> length h),
                         fetches := fetches st @ [service_for_config]\<rparr>)
                     (h @ [params])
               | Inl (UnknownServiceClient x) \<Rightarrow>
                   prepare_services CONF rest
                     (st\<lparr>warnings := warnings st @
                           [''Could not load configuration for service '' @ service],
                         fetches := fetches st @ [service_for_config]\<rparr>)
                     h
               | Inl e \<Rightarrow> Inl e))"

definition prepare_configuration :: "conf \<Rightarrow> heap \<Rightarrow> error + prepared \<times> heap" where
  "prepare_configuration CONF h =
     prepare_services CONF (tempest_modules CONF)
       \<lparr>configuration = Map.empty, warnings = [], fetches = []\<rparr> h"

subsection \<open>Manager construction as a whole\<close>

text \<open>
  Modelled from the spec: the constructor of the base class
  \<^verbatim>\<open>service_clients.ServiceClients\<close>, which \<^verbatim>\<open>Manager.__init__\<close> calls first and whose
  source is not part of this module. The spec says that Manager construction resolves
  the configuration, constructs the auth provider and then calls the builders; that the
  auth provider holds the credentials, an identity URL and the scope, its variant
  chosen by the kind of credentials; that the resolved parameters are kept for the
  Manager's lifetime; and that absent credentials fail fast with an
  \<^verbatim>\<open>InvalidCredentials\<close> error before any client is constructed. The new provider object
  is appended to the store of provider objects and \<^verbatim>\<open>self.auth_provider\<close> is its address.
\<close>

definition ServiceClients_init ::
  "provider list \<Rightarrow> pyobj \<Rightarrow> pyval \<Rightarrow> pyval \<Rightarrow> pyval \<Rightarrow> (string \<rightharpoonup> nat)
     \<Rightarrow> error + manager \<times> provider list" where
  "ServiceClients_init providers credentials auth_url scope region client_parameters =
     (if credentials = PyNone
      then Inl (InvalidCredentials ''Credentials must be specified'')
      else Inr (\<lparr>auth_provider = length providers, parameters = client_parameters,
                 attrs = Map.empty\<rparr>,
                providers @
                  [new_provider
                     (if isinstance_KeystoneV3Credentials credentials
                      then KeystoneV3AuthProvider else KeystoneV2AuthProvider)
                     credentials auth_url [''scope'' \<mapsto> scope]]))"

text \<open>
  The result of \<^verbatim>\<open>Manager(credentials, service, scope)\<close>: the Manager with the stores and
  the warnings logged, or the exception raised together with the client attributes
  that had been set when it was raised.
\<close>

datatype construction =
    Constructed manager heap "provider list" "string list"
  | Failed error "string \<rightharpoonup> client"

text \<open>
  \<^verbatim>\<open>Manager.__init__\<close>: the identity URL is chosen, the arguments of the base class
  constructor are evaluated (\<^verbatim>\<open>self._prepare_configuration()\<close> among them), the base
  class constructor runs, then the clients are built.
\<close>

definition Manager_init ::
  "conf \<Rightarrow> provider list \<Rightarrow> heap \<Rightarrow> pyobj \<Rightarrow> pyval \<Rightarrow> pyval \<Rightarrow> construction" where
  "Manager_init CONF providers h credentials service scope =
     (case get_auth_provider_class CONF credentials of
        (_, auth_url) \<Rightarrow>
          (case prepare_configuration CONF h of
             Inl e \<Rightarrow> Failed e Map.empty
           | Inr (prepared, h) \<Rightarrow>
               (case ServiceClients_init providers credentials auth_url scope
                       (identity_region CONF) (configuration prepared) of
                  Inl e \<Rightarrow> Failed e Map.empty
                | Inr (self, providers) \<Rightarrow>
                    (case Manager_clients CONF service self h of
                       Done self h \<Rightarrow> Constructed self h providers (warnings prepared)
                     | Raised e self h \<Rightarrow> Failed e (attrs self)))))"

section \<open>Notions used in the statements and proofs\<close>

text \<open>
  The auth provider a client refers to: its first positional argument, when that is a
  reference.
\<close>

definition client_auth :: "client \<Rightarrow> nat option" where
  "client_auth c = (case client_args c of AuthRef a # _ \<Rightarrow> Some a | _ \<Rightarrow> None)"

text \<open>
  The parameters of the volume-proxy clients as the specification words them: the
  compute parameters, with \<^verbatim>\<open>build_interval\<close> and \<^verbatim>\<open>build_timeout\<close> taken from the volume
  parameters exactly when the volume parameters hold a truthy value under that key.
\<close>

definition volume_proxy_params :: "dict \<Rightarrow> dict \<Rightarrow> dict" where
  "volume_proxy_params compute volume =
     (\<lambda>k. if (k = ''build_interval'' \<or> k = ''build_timeout'') \<and>
              (case volume k of None \<Rightarrow> False | Some v \<Rightarrow> truthy v)
           then volume k else compute k)"

text \<open>
  A configuration and Manager state with which construction completes: each parameter
  dictionary the builders look up exists, each enabled identity API version has its
  URI, and no call passes a keyword both explicitly and through its dictionary.
\<close>

definition constructible :: "conf \<Rightarrow> manager \<Rightarrow> heap \<Rightarrow> bool" where
  "constructible CONF self h \<longleftrightarrow>
     (case parameters self ''compute'' of
        None \<Rightarrow> False
      | Some c \<Rightarrow> (h ! c) ''enable_instance_password'' = None) \<and>
     parameters self ''identity'' \<noteq> None \<and>
     (identity_feature_enabled_api_v2 CONF \<longrightarrow> truthy (identity_uri CONF)) \<and>
     (identity_feature_enabled_api_v3 CONF \<longrightarrow> truthy (identity_uri_v3 CONF)) \<and>
     (case parameters self ''volume'' of
        None \<Rightarrow> False
      | Some v \<Rightarrow> v < length h \<and> (h ! v) ''default_volume_size'' = None) \<and>
     parameters self ''object-storage'' \<noteq> None \<and>
     (service_available_glance CONF \<longrightarrow> parameters self ''image'' \<noteq> None) \<and>
     parameters self ''network'' \<noteq> None \<and>
     default_params CONF ''endpoint_type'' = None \<and>
     default_params CONF ''build_interval'' = None \<and>
     default_params CONF ''build_timeout'' = None"

text \<open>
  The configuration subsystem raises nothing but unknown-service errors for the
  (unversioned) names of these services.
\<close>

definition only_unknown :: "conf \<Rightarrow> string list \<Rightarrow> bool" where
  "only_unknown CONF services \<longleftrightarrow>
     (\<forall>s \<in> set services. \<forall>e. service_client_config CONF (unversioned s) = Inl e \<longrightarrow>
        (\<exists>x. e = UnknownServiceClient x))"

text \<open>
  What a step may change. \<open>extends N s s'\<close>: from \<open>s\<close> to \<open>s'\<close> the auth provider and
  the parameters are kept, only attributes named in \<open>N\<close> change, and every client that
  is new refers to the auth provider (the two token clients apart). \<open>grows h h'\<close>: the
  store \<open>h'\<close> is \<open>h\<close> with new dictionaries added. \<open>framed\<close> says both of an outcome,
  whether it completed or raised.
\<close>

definition extends :: "string set \<Rightarrow> manager \<Rightarrow> manager \<Rightarrow> bool" where
  "extends N s s' \<longleftrightarrow>
     auth_provider s' = auth_provider s \<and> parameters s' = parameters s \<and>
     (\<forall>name. name \<in> N \<or> attrs s' name = attrs s name) \<and>
     (\<forall>name c. attrs s' name = Some c \<longrightarrow>
        attrs s name = Some c \<or> name = ''token_client'' \<or> name = ''token_v3_client'' \<or>
        client_auth c = Some (auth_provider s))"

definition grows :: "heap \<Rightarrow> heap \<Rightarrow> bool" where
  "grows h h' \<longleftrightarrow> take (length h) h' = h"

definition framed :: "string set \<Rightarrow> manager \<Rightarrow> heap \<Rightarrow> outcome \<Rightarrow> bool" where
  "framed N s0 h0 m \<longleftrightarrow> extends N s0 (final_self m) \<and> grows h0 (final_heap m)"

text \<open>The attribute names each builder assigns.\<close>

definition compute_attrs :: "string set" where
  "compute_attrs =
     fst ` set (compute_clients_before_servers @ compute_clients_after_servers @
                volume_proxy_clients) \<union> {''servers_client''}"

definition identity_attrs :: "string set" where
  "identity_attrs =
     fst ` set (identity_v2_admin_clients @ identity_v2_public_clients @ identity_v3_clients)
       \<union> {''token_client'', ''token_v3_client''}"

definition volume_attrs :: "string set" where
  "volume_attrs =
     fst ` set (volume_clients_before_volumes @ volume_clients_after_volumes)
       \<union> {''volumes_client'', ''volumes_v2_client''}"

definition other_attrs :: "string set" where
  "other_attrs =
     {''baremetal_client'', ''orchestration_client'', ''data_processing_client'',
      ''negative_client''}"

text \<open>
  \<open>keeps name f\<close>: the step \<open>f\<close> never changes the attribute \<open>name\<close>.
  \<open>on_completion Q m\<close>: if \<open>m\<close> completed, \<open>Q\<close> holds of the object.
\<close>

definition keeps :: "string \<Rightarrow> (manager \<Rightarrow> heap \<Rightarrow> outcome) \<Rightarrow> bool" where
  "keeps name f \<longleftrightarrow> (\<forall>s h. attrs (final_self (f s h)) name = attrs s name)"

definition on_completion :: "(manager \<Rightarrow> bool) \<Rightarrow> outcome \<Rightarrow> bool" where
  "on_completion Q m \<longleftrightarrow> (raised m = None \<longrightarrow> Q (final_self m))"

text \<open>
  The invariant of the loop in \<^verbatim>\<open>_prepare_configuration\<close>: every entry is the address
  of the dictionary fetched for its name, and a name whose configuration can be fetched
  has been fetched at most once, and not at all while it has no entry.
\<close>

definition prep_inv :: "conf \<Rightarrow> prepared \<Rightarrow> heap \<Rightarrow> bool" where
  "prep_inv CONF st h \<longleftrightarrow>
     (\<forall>n r. configuration st n = Some r \<longrightarrow>
        r < length h \<and> service_client_config CONF n = Inr (h ! r)) \<and>
     (\<forall>n d. service_client_config CONF n = Inr d \<longrightarrow>
        count_list (fetches st) n \<le> 1 \<and>
        (configuration st n = None \<longrightarrow> n \<notin> set (fetches st)))"

section \<open>A sample configuration\<close>

text \<open>
  A configuration with both identity API versions enabled and both URIs set, the image
  service available, and parameters for six services; the module list also names
  a service (\<^verbatim>\<open>telemetry\<close>) whose configuration is unknown. The volume parameters
  differ from the others in their timeouts, one of them falsy.
\<close>

definition sample_params :: "string \<Rightarrow> dict" where
  "sample_params s =
     [''service'' \<mapsto> PStr s, ''region'' \<mapsto> PStr ''RegionOne'',
      ''endpoint_type'' \<mapsto> PStr ''publicURL'',
      ''build_interval'' \<mapsto> (if s = ''volume'' then PInt 0 else PInt 1),
      ''build_timeout'' \<mapsto> (if s = ''volume'' then PInt 300 else PInt 60)]"

definition sample_service_client_config :: "string \<Rightarrow> error + dict" where
  "sample_service_client_config s =
     (if s \<in> set [''compute'', ''identity'', ''image'', ''network'', ''object-storage'', ''volume'']
      then Inr (sample_params s) else Inl (UnknownServiceClient s))"

definition sample_conf :: conf where
  "sample_conf = \<lparr>
     identity_uri = PStr ''http://keystone/v2.0'',
     identity_uri_v3 = PStr ''http://keystone/v3'',
     identity_region = PStr ''RegionOne'',
     identity_v2_admin_endpoint_type = PStr ''adminURL'',
     identity_v2_public_endpoint_type = PStr ''publicURL'',
     identity_v3_endpoint_type = PStr ''internalURL'',
     identity_feature_enabled_api_v2 = True,
     identity_feature_enabled_api_v3 = True,
     service_available_glance = True,
     compute_build_interval = PInt 1,
     compute_build_timeout = PInt 300,
     compute_feature_enabled_enable_instance_password = PBool True,
     baremetal_catalog_type = PStr ''baremetal'',
     baremetal_endpoint_type = PStr ''publicURL'',
     orchestration_catalog_type = PStr ''orchestration'',
     orchestration_region = PStr [],
     orchestration_endpoint_type = PStr ''publicURL'',
     orchestration_build_interval = PInt 1,
     orchestration_build_timeout = PInt 1200,
     data_processing_catalog_type = PStr ''data-processing'',
     data_processing_endpoint_type = PStr ''publicURL'',
     volume_volume_size = PInt 1,
     default_params = [''trace_requests'' \<mapsto> PStr []],
     service_client_config = sample_service_client_config,
     tempest_modules =
       [''compute'', ''identity.v2'', ''identity.v3'', ''image.v1'', ''image.v2'',
        ''network'', ''object-storage'', ''volume.v1'', ''volume.v2'', ''volume.v3'',
        ''telemetry'']
   \<rparr>"

text \<open>The same with \<^verbatim>\<open>identity.uri\<close> unset, with \<^verbatim>\<open>identity.uri_v3\<close> empty, and with the
  image service unavailable.\<close>

definition sample_conf_no_uri :: conf where
  "sample_conf_no_uri = sample_conf\<lparr>identity_uri := PNone\<rparr>"

definition sample_conf_no_uri_v3 :: conf where
  "sample_conf_no_uri_v3 = sample_conf\<lparr>identity_uri_v3 := PStr []\<rparr>"

definition sample_conf_no_glance :: conf where
  "sample_conf_no_glance = sample_conf\<lparr>service_available_glance := False\<rparr>"

text \<open>
  A Manager as the base class constructor leaves it for the sample configuration, with
  the store its parameters refer to.
\<close>

definition sample_heap :: heap where
  "sample_heap =
     map sample_params
       [''compute'', ''identity'', ''image'', ''network'', ''object-storage'', ''volume'']"

definition sample_self :: manager where
  "sample_self =
     \<lparr>auth_provider = 0,
      parameters = [''compute'' \<mapsto> 0, ''identity'' \<mapsto> 1, ''image'' \<mapsto> 2,
                    ''network'' \<mapsto> 3, ''object-storage'' \<mapsto> 4, ''volume'' \<mapsto> 5],
      attrs = Map.empty\<rparr>"

section \<open>Lemmas about the builders\<close>

subsection \<open>Keyword arguments and single constructions\<close>

lemma call_kw_fresh:
  "\<forall>k \<in> set (map fst explicit). params k = None \<Longrightarrow>
   call_kw explicit params = Inr (params ++ map_of explicit)"
  by (auto simp: call_kw_def find_None_iff split: option.splits)

lemma call_kw_clash:
  "call_kw [(k, v)] params = (if params k = None then Inr (params(k \<mapsto> v)) else Inl (TypeError k))"
  by (simp add: call_kw_def)

lemma auth_provider_setattr [simp]: "auth_provider (setattr name c s) = auth_provider s"
  by (simp add: setattr_def)

lemma parameters_setattr [simp]: "parameters (setattr name c s) = parameters s"
  by (simp add: setattr_def)

lemma attrs_setattr [simp]: "attrs (setattr name c s) = (attrs s)(name \<mapsto> c)"
  by (simp add: setattr_def)

lemma auth_provider_construct_all [simp]:
  "auth_provider (construct_all l kw s) = auth_provider s"
  by (induction l arbitrary: s) auto

lemma parameters_construct_all [simp]:
  "parameters (construct_all l kw s) = parameters s"
  by (induction l arbitrary: s) auto

lemma attrs_construct_all_other:
  "name \<notin> fst ` set l \<Longrightarrow> attrs (construct_all l kw s) name = attrs s name"
  by (induction l arbitrary: s) auto

lemma attrs_construct_all_in:
  "distinct (map fst l) \<Longrightarrow> (name, cl) \<in> set l \<Longrightarrow>
   attrs (construct_all l kw s) name =
     Some \<lparr>client_class = cl, client_args = [AuthRef (auth_provider s)], client_kwargs = kw\<rparr>"
proof (induction l arbitrary: s)
  case Nil
  then show ?case by simp
next
  case (Cons x l)
  obtain n c where x: "x = (n, c)" by (cases x)
  show ?case
  proof (cases "(name, cl) = x")
    case True
    with Cons.prems x have "name \<notin> fst ` set l" by auto
    with True x show ?thesis by (simp add: attrs_construct_all_other)
  next
    case False
    with Cons.prems have "(name, cl) \<in> set l" "distinct (map fst l)" by auto
    with Cons.IH x show ?thesis by simp
  qed
qed

subsection \<open>What a step may change\<close>

lemma extends_refl [simp]: "extends N s s"
  by (simp add: extends_def)

lemma extends_trans:
  "extends N s s' \<Longrightarrow> extends M s' s'' \<Longrightarrow> extends (N \<union> M) s s''"
  unfolding extends_def by (metis UnCI)

lemma extends_step:
  "extends N s s' \<Longrightarrow> extends N s' s'' \<Longrightarrow> extends N s s''"
  using extends_trans [of N s s' N s''] by simp

lemma extends_setattr:
  "name \<in> N \<Longrightarrow>
   name = ''token_client'' \<or> name = ''token_v3_client'' \<or> client_auth c = Some (auth_provider s) \<Longrightarrow>
   extends N s (setattr name c s)"
  by (auto simp: extends_def)

lemma extends_construct_all:
  "fst ` set l \<subseteq> N \<Longrightarrow> extends N s (construct_all l kw s)"
proof (induction l arbitrary: s)
  case Nil
  then show ?case by simp
next
  case (Cons x l)
  obtain n c where x: "x = (n, c)" by (cases x)
  let ?s = "setattr n \<lparr>client_class = c, client_args = [AuthRef (auth_provider s)],
                        client_kwargs = kw\<rparr> s"
  from Cons.prems x have "extends N s ?s"
    by (intro extends_setattr) (auto simp: client_auth_def)
  moreover from Cons.prems have "extends N ?s (construct_all l kw ?s)"
    by (intro Cons.IH) auto
  ultimately show ?case using x by (auto intro: extends_step)
qed

lemma extends_construct:
  "name \<in> N \<Longrightarrow>
   name = ''token_client'' \<or> name = ''token_v3_client'' \<or>
     (\<exists>rest. args = AuthRef (auth_provider s) # rest) \<Longrightarrow>
   extends N s (final_self (construct name cl args explicit params s h))"
  by (auto simp: construct_def client_auth_def split: sum.splits intro!: extends_setattr)

lemma final_heap_construct [simp]:
  "final_heap (construct name cl args explicit params s h) = h"
  by (simp add: construct_def split: sum.splits)

lemma grows_refl [simp]: "grows h h"
  by (simp add: grows_def)

lemma grows_length: "grows h h' \<Longrightarrow> length h \<le> length h'"
proof -
  assume "grows h h'"
  then have "length (take (length h) h') = length h" by (simp add: grows_def)
  then show ?thesis by simp
qed

lemma grows_nth: "grows h h' \<Longrightarrow> i < length h \<Longrightarrow> h' ! i = h ! i"
proof -
  assume g: "grows h h'" and i: "i < length h"
  have "take (length h) h' ! i = h' ! i" using i by simp
  with g show ?thesis by (simp add: grows_def)
qed

lemma grows_trans: "grows h h' \<Longrightarrow> grows h' h'' \<Longrightarrow> grows h h''"
proof -
  assume a: "grows h h'" and b: "grows h' h''"
  have le: "length h \<le> length h'" using a by (rule grows_length)
  have "take (length h) h'' = take (length h) (take (length h') h'')"
    using le by (simp add: min_def)
  also have "\<dots> = take (length h) h'" using b by (simp add: grows_def)
  also have "\<dots> = h" using a by (simp add: grows_def)
  finally show ?thesis by (simp add: grows_def)
qed

lemma grows_append [simp]: "grows h (h @ xs)"
  by (simp add: grows_def)

lemma then_do_Done:
  "raised m = None \<Longrightarrow> then_do m f = f (final_self m) (final_heap m)"
  by (cases m) auto

lemma construct_Done:
  "\<forall>k \<in> set (map fst explicit). params k = None \<Longrightarrow>
   construct name cl args explicit params s h =
     Done (setattr name \<lparr>client_class = cl, client_args = args,
                          client_kwargs = params ++ map_of explicit\<rparr> s) h"
  by (simp add: construct_def call_kw_fresh)

subsection \<open>The timeout override loop\<close>

lemma override_timeouts_length [simp]:
  "length (snd (override_timeouts ks s pv h)) = length h"
  by (induction ks arbitrary: h) (auto simp: dict_setitem_def Let_def split: option.splits)

lemma override_timeouts_take:
  "n \<le> pv \<Longrightarrow> take n (snd (override_timeouts ks s pv h)) = take n h"
  by (induction ks arbitrary: h) (auto simp: dict_setitem_def Let_def split: option.splits)

lemma override_timeouts_raised:
  "fst (override_timeouts ks s pv h) =
     (if ks = [] then None
      else case parameters s ''volume'' of None \<Rightarrow> Some (KeyError ''volume'') | Some v \<Rightarrow> None)"
  by (induction ks arbitrary: h) (auto simp: Let_def split: option.splits)

lemma truthy_dict_get: "truthy (dict_get d k) \<Longrightarrow> d k = Some (dict_get d k)"
  by (cases "d k") (auto simp: dict_get_def)

lemma override_timeouts_result:
  "parameters s ''volume'' = Some v \<Longrightarrow> v \<noteq> pv \<Longrightarrow> pv < length h \<Longrightarrow>
   snd (override_timeouts ks s pv h) ! pv =
     (\<lambda>k. if k \<in> set ks \<and> truthy (dict_get (h ! v) k) then (h ! v) k else (h ! pv) k)"
proof (induction ks arbitrary: h)
  case Nil
  then show ?case by simp
next
  case (Cons key ks)
  let ?val = "dict_get (h ! v) key"
  let ?h = "if truthy ?val then dict_setitem h pv key ?val else h"
  have len: "pv < length ?h" using Cons.prems by (simp add: dict_setitem_def)
  have v: "?h ! v = h ! v" using Cons.prems by (simp add: dict_setitem_def)
  have pv: "?h ! pv = (if truthy ?val then (h ! pv)(key \<mapsto> ?val) else h ! pv)"
    using Cons.prems by (simp add: dict_setitem_def)
  have "snd (override_timeouts (key # ks) s pv h) ! pv = snd (override_timeouts ks s pv ?h) ! pv"
    using Cons.prems by (simp add: Let_def)
  also have "\<dots> = (\<lambda>k. if k \<in> set ks \<and> truthy (dict_get (?h ! v) k) then (?h ! v) k else (?h ! pv) k)"
    using Cons.IH [OF Cons.prems(1) Cons.prems(2) len] .
  also have "\<dots> = (\<lambda>k. if k \<in> set (key # ks) \<and> truthy (dict_get (h ! v) k) then (h ! v) k else (h ! pv) k)"
    unfolding v pv by (rule ext) (auto simp: truthy_dict_get)
  finally show ?case .
qed

declare override_timeouts.simps [simp del]

subsection \<open>Every builder respects the frame\<close>

lemma framed_Done: "framed N s h (Done s h)"
  by (simp add: framed_def)

lemma framed_Raised: "framed N s0 h0 (Done s h) \<Longrightarrow> framed N s0 h0 (Raised e s h)"
  by (simp add: framed_def)

lemma framed_then_do:
  "framed N s0 h0 m \<Longrightarrow>
   (\<And>s1 h1. framed N s0 h0 (Done s1 h1) \<Longrightarrow> framed N s0 h0 (f s1 h1)) \<Longrightarrow>
   framed N s0 h0 (then_do m f)"
  by (cases m) (auto simp: framed_def)

lemma framed_construct_all:
  "framed N s0 h0 (Done s h) \<Longrightarrow> fst ` set l \<subseteq> N \<Longrightarrow>
   framed N s0 h0 (Done (construct_all l kw s) h)"
  unfolding framed_def
  using extends_step [OF _ extends_construct_all [of l N s kw], of s0] by simp

lemma framed_construct:
  "framed N s0 h0 (Done s h) \<Longrightarrow> name \<in> N \<Longrightarrow>
   name = ''token_client'' \<or> name = ''token_v3_client'' \<or>
     (\<exists>rest. args = AuthRef (auth_provider s) # rest) \<Longrightarrow>
   framed N s0 h0 (construct name cl args explicit params s h)"
  unfolding framed_def
  using extends_step [OF _ extends_construct [of name N args s cl explicit params h], of s0]
  by simp

lemma framed_heap:
  "framed N s0 h0 (Done s h) \<Longrightarrow> grows h h' \<Longrightarrow> framed N s0 h0 (Done s h')"
  by (auto simp: framed_def intro: grows_trans)

lemma framed_set_network_clients:
  "framed N s0 h0 (Done self h) \<Longrightarrow> fst ` set network_clients \<subseteq> N \<Longrightarrow>
   framed N s0 h0 (set_network_clients self h)"
  by (auto simp: set_network_clients_def split: option.splits
           intro: framed_Raised framed_construct_all)

lemma framed_set_object_storage_clients:
  "framed N s0 h0 (Done self h) \<Longrightarrow> fst ` set object_storage_clients \<subseteq> N \<Longrightarrow>
   framed N s0 h0 (set_object_storage_clients self h)"
  by (auto simp: set_object_storage_clients_def split: option.splits
           intro: framed_Raised framed_construct_all)

lemma framed_set_image_clients:
  "framed N s0 h0 (Done self h) \<Longrightarrow>
   (service_available_glance CONF \<Longrightarrow> fst ` set image_clients \<subseteq> N) \<Longrightarrow>
   framed N s0 h0 (set_image_clients CONF self h)"
  by (auto simp: set_image_clients_def split: option.splits
           intro: framed_Raised framed_construct_all)

lemma grows_copy_setitem: "grows h (dict_setitem (h @ [d]) (length h) k v)"
  by (simp add: grows_def dict_setitem_def)

lemma framed_set_identity_group:
  "framed N s0 h0 (Done self h) \<Longrightarrow> fst ` set clients \<subseteq> N \<Longrightarrow>
   framed N s0 h0 (set_identity_group params endpoint_type clients self h)"
  unfolding set_identity_group_def dict_copy_def prod.case Let_def
  by (rule framed_construct_all [OF framed_heap [OF _ grows_copy_setitem]])

lemma framed_set_identity_clients:
  assumes "framed N s0 h0 (Done self h)" and "identity_attrs \<subseteq> N"
  shows "framed N s0 h0 (set_identity_clients CONF self h)"
proof (cases "parameters self ''identity''")
  case None
  with assms show ?thesis by (simp add: set_identity_clients_def framed_Raised)
next
  case (Some params)
  from assms(2) have sub:
    "fst ` set identity_v2_admin_clients \<subseteq> N" "fst ` set identity_v2_public_clients \<subseteq> N"
    "fst ` set identity_v3_clients \<subseteq> N" "''token_client'' \<in> N" "''token_v3_client'' \<in> N"
    by (auto simp: identity_attrs_def)
  show ?thesis
    unfolding set_identity_clients_def Some option.case
    by (intro framed_then_do framed_set_identity_group assms(1) sub)
       (auto intro: framed_Raised framed_construct sub)
qed

lemma framed_set_volume_clients:
  assumes "framed N s0 h0 (Done self h)" and "volume_attrs \<subseteq> N"
  shows "framed N s0 h0 (set_volume_clients CONF self h)"
proof (cases "parameters self ''volume''")
  case None
  with assms show ?thesis by (simp add: set_volume_clients_def framed_Raised)
next
  case (Some params)
  from assms(2) have sub:
    "fst ` set volume_clients_before_volumes \<subseteq> N" "fst ` set volume_clients_after_volumes \<subseteq> N"
    "''volumes_client'' \<in> N" "''volumes_v2_client'' \<in> N"
    by (auto simp: volume_attrs_def)
  show ?thesis
    unfolding set_volume_clients_def Some option.case Let_def
    by (intro framed_then_do framed_construct framed_construct_all assms(1) sub) simp_all
qed

lemma grows_override:
  "grows h (snd (override_timeouts ks s (length h) (h @ [d])))"
  by (simp add: grows_def override_timeouts_take)

lemma framed_set_compute_clients:
  assumes "framed N s0 h0 (Done self h)" and "compute_attrs \<subseteq> N"
  shows "framed N s0 h0 (set_compute_clients CONF self h)"
proof (cases "parameters self ''compute''")
  case None
  with assms show ?thesis by (simp add: set_compute_clients_def framed_Raised)
next
  case (Some params)
  from assms(2) have sub:
    "fst ` set compute_clients_before_servers \<subseteq> N"
    "fst ` set compute_clients_after_servers \<subseteq> N"
    "fst ` set volume_proxy_clients \<subseteq> N" "''servers_client'' \<in> N"
    by (auto simp: compute_attrs_def)
  have tail: "framed N s0 h0
     (case dict_copy h1 params of
        (params_volume, h) \<Rightarrow>
          (case override_timeouts [''build_interval'', ''build_timeout'']
                  (construct_all compute_clients_after_servers (h1 ! params) s1)
                  params_volume h of
             (Some e, h) \<Rightarrow>
               Raised e (construct_all compute_clients_after_servers (h1 ! params) s1) h
           | (None, h) \<Rightarrow>
               Done (construct_all volume_proxy_clients (h ! params_volume)
                       (construct_all compute_clients_after_servers (h1 ! params) s1)) h))"
    if f: "framed N s0 h0 (Done s1 h1)" for s1 h1
  proof -
    let ?s = "construct_all compute_clients_after_servers (h1 ! params) s1"
    let ?r = "override_timeouts [''build_interval'', ''build_timeout''] ?s (length h1)
                (h1 @ [h1 ! params])"
    have a: "framed N s0 h0 (Done ?s h1)" using f sub by (intro framed_construct_all)
    have b: "framed N s0 h0 (Done ?s (snd ?r))"
      using a by (rule framed_heap) (rule grows_override)
    show ?thesis
      unfolding dict_copy_def prod.case
      by (cases ?r; cases "fst ?r")
         (use b sub in \<open>auto intro: framed_Raised framed_construct_all\<close>)
  qed
  show ?thesis
    unfolding set_compute_clients_def Some option.case Let_def
    by (intro framed_then_do framed_construct framed_construct_all assms(1) sub tail)
       simp_all
qed

lemma framed_Manager_clients:
  assumes "compute_attrs \<subseteq> N" "identity_attrs \<subseteq> N" "volume_attrs \<subseteq> N"
    "fst ` set object_storage_clients \<subseteq> N" "fst ` set network_clients \<subseteq> N"
    "other_attrs \<subseteq> N"
    "service_available_glance CONF \<Longrightarrow> fst ` set image_clients \<subseteq> N"
  shows "framed N self h (Manager_clients CONF service self h)"
proof -
  from assms(6) have other:
    "''baremetal_client'' \<in> N" "''orchestration_client'' \<in> N"
    "''data_processing_client'' \<in> N" "''negative_client'' \<in> N"
    by (auto simp: other_attrs_def)
  show ?thesis
    unfolding Manager_clients_def
    by (intro framed_then_do framed_set_compute_clients framed_set_identity_clients
          framed_set_volume_clients framed_set_object_storage_clients
          framed_set_image_clients framed_set_network_clients framed_construct
          framed_Done assms(1-5) assms(7) other)
       simp_all
qed

subsection \<open>The result of the compute builder\<close>

lemma set_compute_clients_result:
  assumes "parameters self ''compute'' = Some c" and "parameters self ''volume'' = Some v"
    and "(h ! c) ''enable_instance_password'' = None"
  shows "set_compute_clients CONF self h =
     Done (construct_all volume_proxy_clients
             (snd (override_timeouts [''build_interval'', ''build_timeout'']
                     (construct_all compute_clients_after_servers (h ! c)
                        (setattr ''servers_client''
                           \<lparr>client_class = ''compute.ServersClient'',
                            client_args = [AuthRef (auth_provider self)],
                            client_kwargs = (h ! c)(''enable_instance_password'' \<mapsto>
                               compute_feature_enabled_enable_instance_password CONF)\<rparr>
                           (construct_all compute_clients_before_servers (h ! c) self)))
                     (length h) (h @ [h ! c])) ! length h)
             (construct_all compute_clients_after_servers (h ! c)
                (setattr ''servers_client''
                   \<lparr>client_class = ''compute.ServersClient'',
                    client_args = [AuthRef (auth_provider self)],
                    client_kwargs = (h ! c)(''enable_instance_password'' \<mapsto>
                       compute_feature_enabled_enable_instance_password CONF)\<rparr>
                   (construct_all compute_clients_before_servers (h ! c) self))))
          (snd (override_timeouts [''build_interval'', ''build_timeout'']
                  (construct_all compute_clients_after_servers (h ! c)
                     (setattr ''servers_client''
                        \<lparr>client_class = ''compute.ServersClient'',
                         client_args = [AuthRef (auth_provider self)],
                         client_kwargs = (h ! c)(''enable_instance_password'' \<mapsto>
                            compute_feature_enabled_enable_instance_password CONF)\<rparr>
                        (construct_all compute_clients_before_servers (h ! c) self)))
                  (length h) (h @ [h ! c])))"
    (is "_ = Done (construct_all _ _ ?S) (snd ?R)")
proof -
  have "fst ?R = None"
    using assms(2) by (simp add: override_timeouts_raised)
  then have R: "?R = (None, snd ?R)"
    by (metis prod.collapse)
  have "set_compute_clients CONF self h =
          (case ?R of (Some e, h) \<Rightarrow> Raised e ?S h
           | (None, h') \<Rightarrow> Done (construct_all volume_proxy_clients (h' ! length h) ?S) h')"
    unfolding set_compute_clients_def Let_def auth_provider_construct_all
    using assms(1,3)
    by (simp add: construct_def call_kw_clash dict_copy_def)
  also have "\<dots> = Done (construct_all volume_proxy_clients (snd ?R ! length h) ?S) (snd ?R)"
    by (subst R) simp
  finally show ?thesis .
qed

lemma set_compute_clients_Done:
  assumes "parameters self ''compute'' = Some c" and "parameters self ''volume'' = Some v"
    and "(h ! c) ''enable_instance_password'' = None"
  shows "raised (set_compute_clients CONF self h) = None"
  by (simp add: set_compute_clients_result [OF assms])

lemma compute_names_distinct:
  "distinct (map fst (compute_clients_before_servers @
      (''servers_client'', ''compute.ServersClient'') # compute_clients_after_servers @
      volume_proxy_clients))"
  by code_simp

lemma truthy_dict_get_iff:
  "truthy (dict_get d k) \<longleftrightarrow> (case d k of None \<Rightarrow> False | Some v \<Rightarrow> truthy v)"
  by (simp add: dict_get_def split: option.splits)

lemma override_timeouts_volume_proxy_params:
  assumes "parameters s ''volume'' = Some v" and "c < length h" and "v < length h"
  shows "snd (override_timeouts [''build_interval'', ''build_timeout''] s (length h)
                (h @ [h ! c])) ! length h = volume_proxy_params (h ! c) (h ! v)"
proof -
  have "snd (override_timeouts [''build_interval'', ''build_timeout''] s (length h)
               (h @ [h ! c])) ! length h =
        (\<lambda>k. if k \<in> set [''build_interval'', ''build_timeout''] \<and>
                 truthy (dict_get ((h @ [h ! c]) ! v) k)
              then ((h @ [h ! c]) ! v) k else ((h @ [h ! c]) ! length h) k)"
    using assms by (intro override_timeouts_result) auto
  also have "\<dots> = volume_proxy_params (h ! c) (h ! v)"
    using assms(3)
    by (auto simp: volume_proxy_params_def nth_append truthy_dict_get_iff fun_eq_iff)
  finally show ?thesis .
qed

subsection \<open>The result of the identity builder\<close>

lemma set_identity_group_result:
  "set_identity_group p endpoint_type clients s h =
     Done (construct_all clients ((h ! p)(''endpoint_type'' \<mapsto> endpoint_type)) s)
          (h @ [(h ! p)(''endpoint_type'' \<mapsto> endpoint_type)])"
  by (simp add: set_identity_group_def dict_copy_def dict_setitem_def Let_def)

lemma identity_names_distinct:
  "distinct (map fst (identity_v2_admin_clients @ identity_v2_public_clients @
      identity_v3_clients @
      [(''token_client'', ''identity.v2.TokenClient''),
       (''token_v3_client'', ''identity.v3.V3TokenClient'')]))"
  by code_simp

lemma construct_no_explicit:
  "construct name cl args [] params s h =
     Done (setattr name \<lparr>client_class = cl, client_args = args, client_kwargs = params\<rparr> s) h"
  by (simp add: construct_def call_kw_def)

lemma set_identity_clients_raised:
  assumes "parameters self ''identity'' = Some p"
  shows "raised (set_identity_clients CONF self h) =
     (if identity_feature_enabled_api_v2 CONF \<and> \<not> truthy (identity_uri CONF)
      then Some (InvalidConfiguration ''Identity v2 API enabled, but no identity.uri set'')
      else if identity_feature_enabled_api_v3 CONF \<and> \<not> truthy (identity_uri_v3 CONF)
      then Some (InvalidConfiguration ''Identity v3 API enabled, but no identity.uri_v3 set'')
      else None)"
  using assms
  by (simp add: set_identity_clients_def set_identity_group_result construct_no_explicit)

lemma set_identity_clients_attrs:
  assumes "parameters self ''identity'' = Some p" and "p < length h"
  shows "attrs (final_self (set_identity_clients CONF self h)) =
     (let s3 = construct_all identity_v3_clients
                 ((h ! p)(''endpoint_type'' \<mapsto> identity_v3_endpoint_type CONF))
               (construct_all identity_v2_public_clients
                 ((h ! p)(''endpoint_type'' \<mapsto> identity_v2_public_endpoint_type CONF))
               (construct_all identity_v2_admin_clients
                 ((h ! p)(''endpoint_type'' \<mapsto> identity_v2_admin_endpoint_type CONF)) self));
          token = \<lparr>client_class = ''identity.v2.TokenClient'',
                   client_args = [Val (identity_uri CONF)],
                   client_kwargs = default_params CONF\<rparr>;
          token_v3 = \<lparr>client_class = ''identity.v3.V3TokenClient'',
                      client_args = [Val (identity_uri_v3 CONF)],
                      client_kwargs = default_params CONF\<rparr>
      in if identity_feature_enabled_api_v2 CONF
         then if truthy (identity_uri CONF)
              then if identity_feature_enabled_api_v3 CONF \<and> truthy (identity_uri_v3 CONF)
                   then (attrs s3)(''token_client'' \<mapsto> token, ''token_v3_client'' \<mapsto> token_v3)
                   else (attrs s3)(''token_client'' \<mapsto> token)
              else attrs s3
         else if identity_feature_enabled_api_v3 CONF \<and> truthy (identity_uri_v3 CONF)
              then (attrs s3)(''token_v3_client'' \<mapsto> token_v3)
              else attrs s3)"
  using assms
  by (simp add: set_identity_clients_def set_identity_group_result construct_no_explicit
        nth_append Let_def)

subsection \<open>Attributes kept by later steps\<close>

lemma keeps_framed:
  "(\<And>s h. framed N s h (f s h)) \<Longrightarrow> name \<notin> N \<Longrightarrow> keeps name f"
  unfolding keeps_def framed_def extends_def by metis

lemma keeps_then_do:
  "keeps name b \<Longrightarrow> keeps name f \<Longrightarrow> keeps name (\<lambda>s h. then_do (b s h) f)"
  unfolding keeps_def
proof (intro allI)
  fix s h
  assume b: "\<forall>s h. attrs (final_self (b s h)) name = attrs s name"
    and f: "\<forall>s h. attrs (final_self (f s h)) name = attrs s name"
  show "attrs (final_self (then_do (b s h) f)) name = attrs s name"
    using b [rule_format, of s h] f by (cases "b s h") simp_all
qed

lemma attrs_then_do_keeps:
  "keeps name f \<Longrightarrow> attrs (final_self (then_do m f)) name = attrs (final_self m) name"
  by (cases m) (simp_all add: keeps_def)

lemma keeps_construct:
  "name \<noteq> n \<Longrightarrow> keeps name (\<lambda>s h. construct n cl (args s) explicit params s h)"
  by (simp add: keeps_def construct_def split: sum.splits)

lemma keeps_set_compute_clients:
  "name \<notin> compute_attrs \<Longrightarrow> keeps name (set_compute_clients CONF)"
  by (rule keeps_framed [OF framed_set_compute_clients [OF framed_Done subset_refl]])

lemma keeps_set_identity_clients:
  "name \<notin> identity_attrs \<Longrightarrow> keeps name (set_identity_clients CONF)"
  by (rule keeps_framed [OF framed_set_identity_clients [OF framed_Done subset_refl]])

lemma keeps_set_volume_clients:
  "name \<notin> volume_attrs \<Longrightarrow> keeps name (set_volume_clients CONF)"
  by (rule keeps_framed [OF framed_set_volume_clients [OF framed_Done subset_refl]])

lemma keeps_set_object_storage_clients:
  "name \<notin> fst ` set object_storage_clients \<Longrightarrow> keeps name set_object_storage_clients"
  by (rule keeps_framed [OF framed_set_object_storage_clients [OF framed_Done subset_refl]])

lemma keeps_set_network_clients:
  "name \<notin> fst ` set network_clients \<Longrightarrow> keeps name set_network_clients"
  by (rule keeps_framed [OF framed_set_network_clients [OF framed_Done subset_refl]])

lemma keeps_set_image_clients:
  "\<not> service_available_glance CONF \<or> name \<notin> fst ` set image_clients \<Longrightarrow>
   keeps name (set_image_clients CONF)"
proof (cases "service_available_glance CONF")
  case True
  assume "\<not> service_available_glance CONF \<or> name \<notin> fst ` set image_clients"
  with True have "name \<notin> fst ` set image_clients" by simp
  then show ?thesis
    by (rule keeps_framed [OF framed_set_image_clients [OF framed_Done subset_refl]])
next
  case False
  then show ?thesis by (simp add: keeps_def set_image_clients_def)
qed

subsection \<open>Token clients in the constructed Manager\<close>

lemma token_client_elsewhere:
  "''token_client'' \<notin> compute_attrs" "''token_client'' \<notin> volume_attrs"
  "''token_client'' \<notin> fst ` set object_storage_clients"
  "''token_client'' \<notin> fst ` set image_clients"
  "''token_client'' \<notin> fst ` set network_clients" "''token_client'' \<notin> other_attrs"
  by code_simp+

lemma token_v3_client_elsewhere:
  "''token_v3_client'' \<notin> compute_attrs" "''token_v3_client'' \<notin> volume_attrs"
  "''token_v3_client'' \<notin> fst ` set object_storage_clients"
  "''token_v3_client'' \<notin> fst ` set image_clients"
  "''token_v3_client'' \<notin> fst ` set network_clients"
  "''token_v3_client'' \<notin> other_attrs"
  by code_simp+

lemma token_not_identity_clients:
  "''token_client'' \<notin> fst ` set identity_v2_admin_clients"
  "''token_client'' \<notin> fst ` set identity_v2_public_clients"
  "''token_client'' \<notin> fst ` set identity_v3_clients"
  "''token_v3_client'' \<notin> fst ` set identity_v2_admin_clients"
  "''token_v3_client'' \<notin> fst ` set identity_v2_public_clients"
  "''token_v3_client'' \<notin> fst ` set identity_v3_clients"
  by code_simp+

lemma set_identity_clients_token_client:
  assumes "parameters self ''identity'' = Some p"
  shows "attrs (final_self (set_identity_clients CONF self h)) ''token_client'' =
     (if identity_feature_enabled_api_v2 CONF \<and> truthy (identity_uri CONF)
      then Some \<lparr>client_class = ''identity.v2.TokenClient'',
                 client_args = [Val (identity_uri CONF)],
                 client_kwargs = default_params CONF\<rparr>
      else attrs self ''token_client'')"
  using assms
  by (simp add: set_identity_clients_def set_identity_group_result construct_no_explicit
        attrs_construct_all_other token_not_identity_clients)

lemma set_identity_clients_token_v3_client:
  assumes "parameters self ''identity'' = Some p"
  shows "attrs (final_self (set_identity_clients CONF self h)) ''token_v3_client'' =
     (if identity_feature_enabled_api_v3 CONF \<and> truthy (identity_uri_v3 CONF) \<and>
         (identity_feature_enabled_api_v2 CONF \<longrightarrow> truthy (identity_uri CONF))
      then Some \<lparr>client_class = ''identity.v3.V3TokenClient'',
                 client_args = [Val (identity_uri_v3 CONF)],
                 client_kwargs = default_params CONF\<rparr>
      else attrs self ''token_v3_client'')"
  using assms
  by (simp add: set_identity_clients_def set_identity_group_result construct_no_explicit
        attrs_construct_all_other token_not_identity_clients)

lemma Manager_clients_token_attr:
  assumes "raised (set_compute_clients CONF self h) = None"
    and "name = ''token_client'' \<or> name = ''token_v3_client''"
  shows "attrs (final_self (Manager_clients CONF service self h)) name =
         attrs (final_self (set_identity_clients CONF
                  (final_self (set_compute_clients CONF self h))
                  (final_heap (set_compute_clients CONF self h)))) name"
proof -
  from assms(2) have side: "name \<notin> volume_attrs" "name \<notin> fst ` set object_storage_clients"
    "name \<notin> fst ` set image_clients" "name \<notin> fst ` set network_clients"
    "name \<notin> other_attrs"
    using token_client_elsewhere token_v3_client_elsewhere by metis+
  from side(5) have other: "name \<noteq> ''baremetal_client''" "name \<noteq> ''orchestration_client''"
    "name \<noteq> ''data_processing_client''" "name \<noteq> ''negative_client''"
    by (simp_all add: other_attrs_def)
  show ?thesis
    unfolding Manager_clients_def then_do_Done [OF assms(1)]
    by (intro attrs_then_do_keeps keeps_then_do keeps_set_volume_clients
          keeps_set_object_storage_clients keeps_set_image_clients keeps_set_network_clients
          keeps_construct side(1-4) other disjI2)
qed

lemma raised_then_do_Some: "raised m = Some e \<Longrightarrow> raised (then_do m f) = Some e"
  by (cases m) simp_all

lemma Manager_clients_raised_identity:
  assumes "raised (set_compute_clients CONF self h) = None"
    and "raised (set_identity_clients CONF
                  (final_self (set_compute_clients CONF self h))
                  (final_heap (set_compute_clients CONF self h))) = Some e"
  shows "raised (Manager_clients CONF service self h) = Some e"
  unfolding Manager_clients_def then_do_Done [OF assms(1)]
  using assms(2) by (rule raised_then_do_Some)

lemma after_set_compute_clients:
  "parameters (final_self (set_compute_clients CONF self h)) = parameters self"
  "auth_provider (final_self (set_compute_clients CONF self h)) = auth_provider self"
  "name \<notin> compute_attrs \<Longrightarrow>
     attrs (final_self (set_compute_clients CONF self h)) name = attrs self name"
  "grows h (final_heap (set_compute_clients CONF self h))"
  using framed_set_compute_clients [OF framed_Done subset_refl, of self h CONF]
  unfolding framed_def extends_def by auto

lemma Manager_clients_token_client:
  assumes "parameters self ''compute'' = Some c" and "parameters self ''volume'' = Some v"
    and "(h ! c) ''enable_instance_password'' = None"
    and "parameters self ''identity'' = Some p"
  shows "attrs (final_self (Manager_clients CONF service self h)) ''token_client'' =
     (if identity_feature_enabled_api_v2 CONF \<and> truthy (identity_uri CONF)
      then Some \<lparr>client_class = ''identity.v2.TokenClient'',
                 client_args = [Val (identity_uri CONF)],
                 client_kwargs = default_params CONF\<rparr>
      else attrs self ''token_client'')"
proof -
  have "raised (set_compute_clients CONF self h) = None"
    using assms(1-3) by (rule set_compute_clients_Done)
  then show ?thesis
    using assms(4)
    by (auto simp: Manager_clients_token_attr set_identity_clients_token_client
          after_set_compute_clients token_client_elsewhere)
qed

lemma Manager_clients_token_v3_client:
  assumes "parameters self ''compute'' = Some c" and "parameters self ''volume'' = Some v"
    and "(h ! c) ''enable_instance_password'' = None"
    and "parameters self ''identity'' = Some p"
  shows "attrs (final_self (Manager_clients CONF service self h)) ''token_v3_client'' =
     (if identity_feature_enabled_api_v3 CONF \<and> truthy (identity_uri_v3 CONF) \<and>
         (identity_feature_enabled_api_v2 CONF \<longrightarrow> truthy (identity_uri CONF))
      then Some \<lparr>client_class = ''identity.v3.V3TokenClient'',
                 client_args = [Val (identity_uri_v3 CONF)],
                 client_kwargs = default_params CONF\<rparr>
      else attrs self ''token_v3_client'')"
proof -
  have "raised (set_compute_clients CONF self h) = None"
    using assms(1-3) by (rule set_compute_clients_Done)
  then show ?thesis
    using assms(4)
    by (auto simp: Manager_clients_token_attr set_identity_clients_token_v3_client
          after_set_compute_clients token_v3_client_elsewhere)
qed

lemma Manager_clients_raised_token:
  assumes "parameters self ''compute'' = Some c" and "parameters self ''volume'' = Some v"
    and "(h ! c) ''enable_instance_password'' = None"
    and "parameters self ''identity'' = Some p"
    and "identity_feature_enabled_api_v2 CONF \<and> \<not> truthy (identity_uri CONF) \<or>
         identity_feature_enabled_api_v3 CONF \<and> \<not> truthy (identity_uri_v3 CONF)"
  shows "raised (Manager_clients CONF service self h) =
     Some (InvalidConfiguration
       (if identity_feature_enabled_api_v2 CONF \<and> \<not> truthy (identity_uri CONF)
        then ''Identity v2 API enabled, but no identity.uri set''
        else ''Identity v3 API enabled, but no identity.uri_v3 set''))"
proof -
  have "raised (set_compute_clients CONF self h) = None"
    using assms(1-3) by (rule set_compute_clients_Done)
  then show ?thesis
    using assms(4,5)
    by (intro Manager_clients_raised_identity)
       (auto simp: set_identity_clients_raised after_set_compute_clients)
qed

subsection \<open>The identity groups\<close>

lemma set_identity_clients_attrs_other:
  assumes "parameters self ''identity'' = Some p" and "p < length h"
    and "name \<noteq> ''token_client''" and "name \<noteq> ''token_v3_client''"
  shows "attrs (final_self (set_identity_clients CONF self h)) name =
     attrs (construct_all identity_v3_clients
                 ((h ! p)(''endpoint_type'' \<mapsto> identity_v3_endpoint_type CONF))
               (construct_all identity_v2_public_clients
                 ((h ! p)(''endpoint_type'' \<mapsto> identity_v2_public_endpoint_type CONF))
               (construct_all identity_v2_admin_clients
                 ((h ! p)(''endpoint_type'' \<mapsto> identity_v2_admin_endpoint_type CONF)) self)))
       name"
  using assms(3,4) by (simp add: set_identity_clients_attrs [OF assms(1,2)] Let_def)

lemma identity_groups_attrs:
  assumes "parameters self ''identity'' = Some p" and "p < length h"
  shows "(name, cl) \<in> set identity_v2_admin_clients \<Longrightarrow>
      attrs (final_self (set_identity_clients CONF self h)) name =
        Some \<lparr>client_class = cl, client_args = [AuthRef (auth_provider self)],
              client_kwargs =
                (h ! p)(''endpoint_type'' \<mapsto> identity_v2_admin_endpoint_type CONF)\<rparr>"
    and "(name, cl) \<in> set identity_v2_public_clients \<Longrightarrow>
      attrs (final_self (set_identity_clients CONF self h)) name =
        Some \<lparr>client_class = cl, client_args = [AuthRef (auth_provider self)],
              client_kwargs =
                (h ! p)(''endpoint_type'' \<mapsto> identity_v2_public_endpoint_type CONF)\<rparr>"
    and "(name, cl) \<in> set identity_v3_clients \<Longrightarrow>
      attrs (final_self (set_identity_clients CONF self h)) name =
        Some \<lparr>client_class = cl, client_args = [AuthRef (auth_provider self)],
              client_kwargs = (h ! p)(''endpoint_type'' \<mapsto> identity_v3_endpoint_type CONF)\<rparr>"
proof -
  define s1 where "s1 = construct_all identity_v2_admin_clients
      ((h ! p)(''endpoint_type'' \<mapsto> identity_v2_admin_endpoint_type CONF)) self"
  define s2 where "s2 = construct_all identity_v2_public_clients
      ((h ! p)(''endpoint_type'' \<mapsto> identity_v2_public_endpoint_type CONF)) s1"
  define s3 where "s3 = construct_all identity_v3_clients
      ((h ! p)(''endpoint_type'' \<mapsto> identity_v3_endpoint_type CONF)) s2"
  have final: "attrs (final_self (set_identity_clients CONF self h)) n = attrs s3 n"
    if "n \<noteq> ''token_client''" "n \<noteq> ''token_v3_client''" for n
    unfolding s3_def s2_def s1_def
    using assms that by (rule set_identity_clients_attrs_other)
  have ap: "auth_provider s1 = auth_provider self" "auth_provider s2 = auth_provider self"
    by (simp_all add: s1_def s2_def)
  note d = identity_names_distinct
             [simplified distinct_append map_append list.map distinct.simps]
  have d_admin: "distinct (map fst identity_v2_admin_clients)"
    and d_public: "distinct (map fst identity_v2_public_clients)"
    and d_v3: "distinct (map fst identity_v3_clients)"
    and disj_admin: "fst ` set identity_v2_admin_clients \<inter>
          (fst ` set identity_v2_public_clients \<union> fst ` set identity_v3_clients) = {}"
    and disj_public: "fst ` set identity_v2_public_clients \<inter>
          fst ` set identity_v3_clients = {}"
    using d token_not_identity_clients by simp_all
  have not_token: "n \<noteq> ''token_client''" "n \<noteq> ''token_v3_client''"
    if "n \<in> fst ` set identity_v2_admin_clients \<union> fst ` set identity_v2_public_clients \<union>
            fst ` set identity_v3_clients" for n
    using that token_not_identity_clients by (metis Un_iff)+
  {
    assume m: "(name, cl) \<in> set identity_v2_admin_clients"
    then have n: "name \<in> fst ` set identity_v2_admin_clients" by force
    with disj_admin
    have o: "name \<notin> fst ` set identity_v2_public_clients \<union> fst ` set identity_v3_clients"
      by (meson disjoint_iff)
    have "attrs (final_self (set_identity_clients CONF self h)) name = attrs s3 name"
      using n by (intro final not_token) simp_all
    also have "\<dots> = attrs s2 name"
      unfolding s3_def using o by (intro attrs_construct_all_other) simp
    also have "\<dots> = attrs s1 name"
      unfolding s2_def using o by (intro attrs_construct_all_other) simp
    also have "\<dots> = Some \<lparr>client_class = cl, client_args = [AuthRef (auth_provider self)],
              client_kwargs =
                (h ! p)(''endpoint_type'' \<mapsto> identity_v2_admin_endpoint_type CONF)\<rparr>"
      unfolding s1_def by (rule attrs_construct_all_in [OF d_admin m])
    finally show "attrs (final_self (set_identity_clients CONF self h)) name =
        Some \<lparr>client_class = cl, client_args = [AuthRef (auth_provider self)],
              client_kwargs =
                (h ! p)(''endpoint_type'' \<mapsto> identity_v2_admin_endpoint_type CONF)\<rparr>" .
  }
  {
    assume m: "(name, cl) \<in> set identity_v2_public_clients"
    then have n: "name \<in> fst ` set identity_v2_public_clients" by force
    with disj_public have o: "name \<notin> fst ` set identity_v3_clients"
      by (meson disjoint_iff)
    have "attrs (final_self (set_identity_clients CONF self h)) name = attrs s3 name"
      using n by (intro final not_token) simp_all
    also have "\<dots> = attrs s2 name"
      unfolding s3_def using o by (intro attrs_construct_all_other)
    also have "\<dots> = Some \<lparr>client_class = cl, client_args = [AuthRef (auth_provider s1)],
              client_kwargs =
                (h ! p)(''endpoint_type'' \<mapsto> identity_v2_public_endpoint_type CONF)\<rparr>"
      unfolding s2_def by (rule attrs_construct_all_in [OF d_public m])
    finally show "attrs (final_self (set_identity_clients CONF self h)) name =
        Some \<lparr>client_class = cl, client_args = [AuthRef (auth_provider self)],
              client_kwargs =
                (h ! p)(''endpoint_type'' \<mapsto> identity_v2_public_endpoint_type CONF)\<rparr>"
      by (simp add: ap)
  }
  {
    assume m: "(name, cl) \<in> set identity_v3_clients"
    then have n: "name \<in> fst ` set identity_v3_clients" by force
    have "attrs (final_self (set_identity_clients CONF self h)) name = attrs s3 name"
      using n by (intro final not_token) simp_all
    also have "\<dots> = Some \<lparr>client_class = cl, client_args = [AuthRef (auth_provider s2)],
              client_kwargs = (h ! p)(''endpoint_type'' \<mapsto> identity_v3_endpoint_type CONF)\<rparr>"
      unfolding s3_def by (rule attrs_construct_all_in [OF d_v3 m])
    finally show "attrs (final_self (set_identity_clients CONF self h)) name =
        Some \<lparr>client_class = cl, client_args = [AuthRef (auth_provider self)],
              client_kwargs = (h ! p)(''endpoint_type'' \<mapsto> identity_v3_endpoint_type CONF)\<rparr>"
      by (simp add: ap)
  }
qed

lemma after_set_identity_clients:
  "parameters (final_self (set_identity_clients CONF self h)) = parameters self"
  "auth_provider (final_self (set_identity_clients CONF self h)) = auth_provider self"
  "name \<notin> identity_attrs \<Longrightarrow>
     attrs (final_self (set_identity_clients CONF self h)) name = attrs self name"
  "grows h (final_heap (set_identity_clients CONF self h))"
  using framed_set_identity_clients [OF framed_Done subset_refl, of self h CONF]
  unfolding framed_def extends_def by auto

subsection \<open>Completion of the constructor\<close>

lemma raised_construct:
  "\<forall>k \<in> set (map fst explicit). params k = None \<Longrightarrow>
   raised (construct name cl args explicit params s h) = None"
  by (simp add: construct_Done)

lemma raised_set_identity_clients:
  "parameters s ''identity'' \<noteq> None \<Longrightarrow>
   identity_feature_enabled_api_v2 CONF \<longrightarrow> truthy (identity_uri CONF) \<Longrightarrow>
   identity_feature_enabled_api_v3 CONF \<longrightarrow> truthy (identity_uri_v3 CONF) \<Longrightarrow>
   raised (set_identity_clients CONF s h) = None"
  by (auto simp: set_identity_clients_raised)

lemma raised_set_volume_clients:
  "parameters s ''volume'' = Some v \<Longrightarrow> (h ! v) ''default_volume_size'' = None \<Longrightarrow>
   raised (set_volume_clients CONF s h) = None"
  by (simp add: set_volume_clients_def construct_def call_kw_clash Let_def)

lemma raised_set_object_storage_clients:
  "parameters s ''object-storage'' \<noteq> None \<Longrightarrow> raised (set_object_storage_clients s h) = None"
  by (auto simp: set_object_storage_clients_def)

lemma raised_set_image_clients:
  "service_available_glance CONF \<longrightarrow> parameters s ''image'' \<noteq> None \<Longrightarrow>
   raised (set_image_clients CONF s h) = None"
  by (auto simp: set_image_clients_def)

lemma raised_set_network_clients:
  "parameters s ''network'' \<noteq> None \<Longrightarrow> raised (set_network_clients s h) = None"
  by (auto simp: set_network_clients_def)

lemma Done_then_do:
  "raised m = None \<Longrightarrow> framed N s0 h0 m \<Longrightarrow>
   (\<And>s h. framed N s0 h0 (Done s h) \<Longrightarrow> raised (f s h) = None) \<Longrightarrow>
   raised (then_do m f) = None"
  by (cases m) simp_all

lemma framed_parameters:
  "framed N s0 h0 (Done s h) \<Longrightarrow> parameters s = parameters s0"
  by (simp add: framed_def extends_def)

lemma framed_nth:
  "framed N s0 h0 (Done s h) \<Longrightarrow> i < length h0 \<Longrightarrow> h ! i = h0 ! i"
  by (simp add: framed_def grows_nth)

lemma Manager_clients_Done:
  assumes "constructible CONF self h"
  shows "raised (Manager_clients CONF service self h) = None"
proof -
  from assms obtain c v where
    c: "parameters self ''compute'' = Some c" "(h ! c) ''enable_instance_password'' = None"
    and v: "parameters self ''volume'' = Some v" "v < length h"
      "(h ! v) ''default_volume_size'' = None"
    by (auto simp: constructible_def split: option.splits)
  from assms have rest: "parameters self ''identity'' \<noteq> None"
    "identity_feature_enabled_api_v2 CONF \<longrightarrow> truthy (identity_uri CONF)"
    "identity_feature_enabled_api_v3 CONF \<longrightarrow> truthy (identity_uri_v3 CONF)"
    "parameters self ''object-storage'' \<noteq> None"
    "service_available_glance CONF \<longrightarrow> parameters self ''image'' \<noteq> None"
    "parameters self ''network'' \<noteq> None"
    and dflt: "default_params CONF ''endpoint_type'' = None"
    "default_params CONF ''build_interval'' = None"
    "default_params CONF ''build_timeout'' = None"
    by (simp_all add: constructible_def)
  have st_compute: "raised (set_compute_clients CONF self h) = None"
    using c(1) v(1) c(2) by (rule set_compute_clients_Done)
  have st_identity: "raised (set_identity_clients CONF s h') = None"
    if "framed UNIV self h (Done s h')" for s h'
    using rest(1-3) by (intro raised_set_identity_clients) (simp_all add: framed_parameters [OF that])
  have st_volume: "raised (set_volume_clients CONF s h') = None"
    if "framed UNIV self h (Done s h')" for s h'
    using v by (intro raised_set_volume_clients [of _ v])
      (simp_all add: framed_parameters [OF that] framed_nth [OF that])
  have st_object: "raised (set_object_storage_clients s h') = None"
    if "framed UNIV self h (Done s h')" for s h'
    using rest(4) by (intro raised_set_object_storage_clients) (simp add: framed_parameters [OF that])
  have st_image: "raised (set_image_clients CONF s h') = None"
    if "framed UNIV self h (Done s h')" for s h'
    using rest(5) by (intro raised_set_image_clients) (simp add: framed_parameters [OF that])
  have st_network: "raised (set_network_clients s h') = None"
    if "framed UNIV self h (Done s h')" for s h'
    using rest(6) by (intro raised_set_network_clients) (simp add: framed_parameters [OF that])
  have st_construct:
    "raised (construct name cl args [(''endpoint_type'', x)]
               (default_params_with_timeout_values CONF) s h') = None"
    "raised (construct name cl args
               [(''endpoint_type'', x), (''build_interval'', y), (''build_timeout'', z)]
               (default_params CONF) s h') = None"
    "raised (construct name cl args [] (default_params CONF) s h') = None"
    for name cl args x y z s h'
    using dflt by (simp_all add: raised_construct default_params_with_timeout_values_def
                      map_add_def)
  show ?thesis
    unfolding Manager_clients_def
    by (intro Done_then_do [where N = UNIV and ?s0.0 = self and ?h0.0 = h]
          st_compute st_identity st_volume st_object st_image st_network st_construct
          framed_set_compute_clients framed_set_identity_clients framed_set_volume_clients
          framed_set_object_storage_clients framed_set_image_clients
          framed_set_network_clients framed_construct framed_Done)
       (assumption | simp)+
qed

subsection \<open>Image clients in the constructed Manager\<close>

lemma on_completion_skip:
  "(\<And>s h. on_completion Q (f s h)) \<Longrightarrow> on_completion Q (then_do m f)"
  by (cases m) (simp_all add: on_completion_def)

lemma on_completion_stage:
  "(\<And>s h. m = Done s h \<Longrightarrow> Q s) \<Longrightarrow> (\<And>s h. Q s \<Longrightarrow> on_completion Q (f s h)) \<Longrightarrow>
   on_completion Q (then_do m f)"
  by (cases m) (simp_all add: on_completion_def)

lemma on_completion_keeps:
  "keeps n f \<Longrightarrow> \<exists>c. attrs s n = Some c \<and> P c \<Longrightarrow>
   on_completion (\<lambda>s'. \<exists>c. attrs s' n = Some c \<and> P c) (f s h)"
  by (simp add: on_completion_def keeps_def)

lemma image_names_elsewhere:
  "\<forall>n \<in> fst ` set image_clients.
     n \<notin> compute_attrs \<and> n \<notin> identity_attrs \<and> n \<notin> volume_attrs \<and>
     n \<notin> fst ` set object_storage_clients \<and> n \<notin> fst ` set network_clients \<and>
     n \<notin> other_attrs"
  by code_simp

lemma image_names_distinct: "distinct (map fst image_clients)"
  by code_simp

lemma Manager_clients_image_kept:
  assumes "\<not> service_available_glance CONF" and "n \<in> fst ` set image_clients"
  shows "attrs (final_self (Manager_clients CONF service self h)) n = attrs self n"
proof -
  from assms(2) image_names_elsewhere
  have side: "n \<notin> compute_attrs" "n \<notin> identity_attrs" "n \<notin> volume_attrs"
    "n \<notin> fst ` set object_storage_clients" "n \<notin> fst ` set network_clients"
    "n \<notin> other_attrs"
    by blast+
  from side(6) have other: "n \<noteq> ''baremetal_client''" "n \<noteq> ''orchestration_client''"
    "n \<noteq> ''data_processing_client''" "n \<noteq> ''negative_client''"
    by (simp_all add: other_attrs_def)
  have "keeps n (\<lambda>s h. Manager_clients CONF service s h)"
    unfolding Manager_clients_def
    by (intro keeps_then_do keeps_set_compute_clients keeps_set_identity_clients
          keeps_set_volume_clients keeps_set_object_storage_clients keeps_set_image_clients
          keeps_set_network_clients keeps_construct side(1-5) other disjI1 assms(1))
  then show ?thesis by (simp add: keeps_def)
qed

lemma Manager_clients_image_set:
  assumes "service_available_glance CONF" and "(n, cl) \<in> set image_clients"
  shows "on_completion (\<lambda>s'. \<exists>c. attrs s' n = Some c \<and> client_class c = cl)
           (Manager_clients CONF service self h)"
proof -
  from assms(2) have "n \<in> fst ` set image_clients" by force
  with image_names_elsewhere
  have side: "n \<notin> fst ` set network_clients" "n \<notin> other_attrs"
    by blast+
  from side(2) have other: "n \<noteq> ''baremetal_client''" "n \<noteq> ''orchestration_client''"
    "n \<noteq> ''data_processing_client''" "n \<noteq> ''negative_client''"
    by (simp_all add: other_attrs_def)
  have image: "\<exists>c. attrs s' n = Some c \<and> client_class c = cl"
    if "set_image_clients CONF s h0 = Done s' h'" for s h0 s' h'
    using that assms(1) attrs_construct_all_in [OF image_names_distinct assms(2)]
    by (auto simp: set_image_clients_def split: option.splits)
  show ?thesis
    unfolding Manager_clients_def
    apply (rule on_completion_skip)
    apply (rule on_completion_skip)
    apply (rule on_completion_skip)
    apply (rule on_completion_skip)
    apply (rule on_completion_stage)
     apply (erule image)
    apply (rule on_completion_keeps)
     apply (intro keeps_then_do keeps_set_network_clients keeps_construct side(1) other)
    apply assumption
    done
qed

subsection \<open>The configuration loop\<close>

lemma prepare_services_correct:
  assumes "only_unknown CONF services" and "prep_inv CONF st h"
  shows "\<exists>st' h'. prepare_services CONF services st h = Inr (st', h') \<and>
     prep_inv CONF st' h' \<and> grows h h' \<and>
     (\<forall>n. configuration st' n \<noteq> None \<longleftrightarrow>
        configuration st n \<noteq> None \<or>
        (n \<in> unversioned ` set services \<and> (\<exists>d. service_client_config CONF n = Inr d))) \<and>
     set (warnings st) \<subseteq> set (warnings st') \<and>
     (\<forall>s \<in> set services.
        (\<exists>x. service_client_config CONF (unversioned s) = Inl (UnknownServiceClient x)) \<longrightarrow>
        ''Could not load configuration for service '' @ s \<in> set (warnings st'))"
  using assms
proof (induction services arbitrary: st h)
  case Nil
  then show ?case by simp
next
  case (Cons service rest)
  let ?n = "unversioned service"
  from Cons.prems(1) have ok_rest: "only_unknown CONF rest"
    and ok_here: "\<And>e. service_client_config CONF ?n = Inl e \<Longrightarrow> \<exists>x. e = UnknownServiceClient x"
    by (auto simp: only_unknown_def)
  from Cons.prems(2) have stored:
    "\<And>n r. configuration st n = Some r \<Longrightarrow>
       r < length h \<and> service_client_config CONF n = Inr (h ! r)"
    and fetched: "\<And>n d. service_client_config CONF n = Inr d \<Longrightarrow>
       count_list (fetches st) n \<le> 1 \<and> (configuration st n = None \<longrightarrow> n \<notin> set (fetches st))"
    by (auto simp: prep_inv_def)
  show ?case
  proof (cases "configuration st ?n")
    case (Some r)
    then have known: "\<exists>d. service_client_config CONF ?n = Inr d"
      using stored by blast
    from Cons.IH [OF ok_rest Cons.prems(2)] obtain st' h' where
      r: "prepare_services CONF rest st h = Inr (st', h')" and
      i: "prep_inv CONF st' h'" "grows h h'" and
      d: "\<forall>n. configuration st' n \<noteq> None \<longleftrightarrow>
        configuration st n \<noteq> None \<or>
        (n \<in> unversioned ` set rest \<and> (\<exists>d. service_client_config CONF n = Inr d))" and
      w: "set (warnings st) \<subseteq> set (warnings st')"
         "\<forall>s \<in> set rest.
        (\<exists>x. service_client_config CONF (unversioned s) = Inl (UnknownServiceClient x)) \<longrightarrow>
        ''Could not load configuration for service '' @ s \<in> set (warnings st')"
      by blast
    have run: "prepare_services CONF (service # rest) st h = Inr (st', h')"
      using Some r by simp
    have dom: "\<forall>n. configuration st' n \<noteq> None \<longleftrightarrow>
        configuration st n \<noteq> None \<or>
        (n \<in> unversioned ` set (service # rest) \<and> (\<exists>d. service_client_config CONF n = Inr d))"
      using d Some by auto
    have warn: "\<forall>s \<in> set (service # rest).
        (\<exists>x. service_client_config CONF (unversioned s) = Inl (UnknownServiceClient x)) \<longrightarrow>
        ''Could not load configuration for service '' @ s \<in> set (warnings st')"
      using w(2) known by auto
    show ?thesis using run i dom w(1) warn by blast
  next
    case None
    show ?thesis
    proof (cases "service_client_config CONF ?n")
      case (Inr params)
      let ?st = "st\<lparr>configuration := (configuration st)(?n \<mapsto> length h),
                     fetches := fetches st @ [?n]\<rparr>"
      let ?h = "h @ [params]"
      have inv: "prep_inv CONF ?st ?h"
        unfolding prep_inv_def
      proof (intro conjI allI impI)
        fix n r
        assume "configuration ?st n = Some r"
        then show "r < length ?h" "service_client_config CONF n = Inr (?h ! r)"
          using stored [of n r] Inr by (auto simp: nth_append split: if_splits)
      next
        fix n d
        assume k: "service_client_config CONF n = Inr d"
        show "count_list (fetches ?st) n \<le> 1"
          using fetched [OF k] None by (cases "n = ?n") auto
      next
        fix n d
        assume k: "service_client_config CONF n = Inr d" and "configuration ?st n = None"
        then show "n \<notin> set (fetches ?st)"
          using fetched [OF k] by (auto split: if_splits)
      qed
      from Cons.IH [OF ok_rest inv] obtain st' h' where
        r: "prepare_services CONF rest ?st ?h = Inr (st', h')" and
        i: "prep_inv CONF st' h'" "grows ?h h'" and
        d: "\<forall>n. configuration st' n \<noteq> None \<longleftrightarrow>
          configuration ?st n \<noteq> None \<or>
          (n \<in> unversioned ` set rest \<and> (\<exists>d. service_client_config CONF n = Inr d))" and
        w: "set (warnings ?st) \<subseteq> set (warnings st')"
           "\<forall>s \<in> set rest.
          (\<exists>x. service_client_config CONF (unversioned s) = Inl (UnknownServiceClient x)) \<longrightarrow>
          ''Could not load configuration for service '' @ s \<in> set (warnings st')"
        by blast
      have run: "prepare_services CONF (service # rest) st h = Inr (st', h')"
        using None Inr r by simp
      have g: "grows h h'"
        using grows_append [of h "[params]"] i(2) by (rule grows_trans)
      have dom: "\<forall>n. configuration st' n \<noteq> None \<longleftrightarrow>
          configuration st n \<noteq> None \<or>
          (n \<in> unversioned ` set (service # rest) \<and> (\<exists>d. service_client_config CONF n = Inr d))"
        using d Inr None by auto
      have warn: "\<forall>s \<in> set (service # rest).
          (\<exists>x. service_client_config CONF (unversioned s) = Inl (UnknownServiceClient x)) \<longrightarrow>
          ''Could not load configuration for service '' @ s \<in> set (warnings st')"
        using w(2) Inr by auto
      from w(1) have w1: "set (warnings st) \<subseteq> set (warnings st')" by simp
      show ?thesis using run i(1) g dom w1 warn by blast
    next
      case (Inl e)
      with ok_here obtain x where e: "e = UnknownServiceClient x" by blast
      let ?msg = "''Could not load configuration for service '' @ service"
      let ?st = "st\<lparr>warnings := warnings st @ [?msg], fetches := fetches st @ [?n]\<rparr>"
      have inv: "prep_inv CONF ?st h"
        unfolding prep_inv_def
      proof (intro conjI allI impI)
        fix n r
        assume "configuration ?st n = Some r"
        then show "r < length h" "service_client_config CONF n = Inr (h ! r)"
          using stored [of n r] by auto
      next
        fix n d
        assume k: "service_client_config CONF n = Inr d"
        with Inl have "n \<noteq> ?n" by auto
        then show "count_list (fetches ?st) n \<le> 1"
          using fetched [OF k] by simp
      next
        fix n d
        assume k: "service_client_config CONF n = Inr d" and c: "configuration ?st n = None"
        with Inl have "n \<noteq> ?n" by auto
        then show "n \<notin> set (fetches ?st)"
          using fetched [OF k] c by simp
      qed
      from Cons.IH [OF ok_rest inv] obtain st' h' where
        r: "prepare_services CONF rest ?st h = Inr (st', h')" and
        i: "prep_inv CONF st' h'" "grows h h'" and
        d: "\<forall>n. configuration st' n \<noteq> None \<longleftrightarrow>
          configuration ?st n \<noteq> None \<or>
          (n \<in> unversioned ` set rest \<and> (\<exists>d. service_client_config CONF n = Inr d))" and
        w: "set (warnings ?st) \<subseteq> set (warnings st')"
           "\<forall>s \<in> set rest.
          (\<exists>x. service_client_config CONF (unversioned s) = Inl (UnknownServiceClient x)) \<longrightarrow>
          ''Could not load configuration for service '' @ s \<in> set (warnings st')"
        by blast
      have run: "prepare_services CONF (service # rest) st h = Inr (st', h')"
        using None Inl e r by simp
      have dom: "\<forall>n. configuration st' n \<noteq> None \<longleftrightarrow>
          configuration st n \<noteq> None \<or>
          (n \<in> unversioned ` set (service # rest) \<and> (\<exists>d. service_client_config CONF n = Inr d))"
        using d Inl by auto
      from w(1) have w1: "set (warnings st) \<subseteq> set (warnings st')" and here: "?msg \<in> set (warnings st')"
        by auto
      have warn: "\<forall>s \<in> set (service # rest).
          (\<exists>x. service_client_config CONF (unversioned s) = Inl (UnknownServiceClient x)) \<longrightarrow>
          ''Could not load configuration for service '' @ s \<in> set (warnings st')"
        using w(2) here by auto
      show ?thesis using run i dom w1 warn by blast
    qed
  qed
qed

lemma prepare_services_error:
  "prepare_services CONF services st h = Inl e \<Longrightarrow> \<forall>x. e \<noteq> UnknownServiceClient x"
proof (induction services arbitrary: st h)
  case Nil
  then show ?case by simp
next
  case (Cons service rest)
  then show ?case
    by (auto simp: Let_def split: if_splits sum.splits error.splits)
qed

lemma only_unknown_sample: "only_unknown sample_conf services"
  by (auto simp: only_unknown_def sample_conf_def sample_service_client_config_def
           split: if_splits)

section \<open>Properties of the auth provider selection\<close>

text \<open>
  C1. \<^verbatim>\<open>get_auth_provider_class\<close> returns the provider class and the identity URL that
  match the credentials: v3 credentials give the v3 provider with \<^verbatim>\<open>CONF.identity.uri_v3\<close>,
  anything else gives the v2 provider with \<^verbatim>\<open>CONF.identity.uri\<close>.
\<close>

theorem get_auth_provider_class_matches:
  "(isinstance_KeystoneV3Credentials credentials \<longrightarrow>
      get_auth_provider_class CONF credentials = (KeystoneV3AuthProvider, identity_uri_v3 CONF)) \<and>
   (\<not> isinstance_KeystoneV3Credentials credentials \<longrightarrow>
      get_auth_provider_class CONF credentials = (KeystoneV2AuthProvider, identity_uri CONF)) \<and>
   get_auth_provider_class CONF (KeystoneV3Credentials d)
     = (KeystoneV3AuthProvider, identity_uri_v3 CONF) \<and>
   get_auth_provider_class CONF (KeystoneV2Credentials d)
     = (KeystoneV2AuthProvider, identity_uri CONF)"
  by (simp add: get_auth_provider_class_def)

theorem get_auth_provider_class_matches_witness:
  "isinstance_KeystoneV3Credentials (KeystoneV3Credentials [''username'' \<mapsto> PStr ''demo'']) \<and>
   get_auth_provider_class sample_conf (KeystoneV3Credentials [''username'' \<mapsto> PStr ''demo''])
     = (KeystoneV3AuthProvider, PStr ''http://keystone/v3'') \<and>
   \<not> isinstance_KeystoneV3Credentials (KeystoneV2Credentials [''username'' \<mapsto> PStr ''demo'']) \<and>
   get_auth_provider_class sample_conf (KeystoneV2Credentials [''username'' \<mapsto> PStr ''demo''])
     = (KeystoneV2AuthProvider, PStr ''http://keystone/v2.0'')"
  using get_auth_provider_class_matches
          [of "KeystoneV3Credentials [''username'' \<mapsto> PStr ''demo'']" sample_conf]
        get_auth_provider_class_matches
          [of "KeystoneV2Credentials [''username'' \<mapsto> PStr ''demo'']" sample_conf]
  by (simp add: sample_conf_def)

text \<open>
  C9. \<^verbatim>\<open>get_auth_provider_class\<close> has no raising branch: it returns a pair for every
  argument. For every argument that is not a v3 credentials object, \<^verbatim>\<open>None\<close> and
  objects of unrelated classes included, the pair is the v2 provider class with
  \<^verbatim>\<open>CONF.identity.uri\<close>.
\<close>

theorem get_auth_provider_class_total:
  "(\<not> isinstance_KeystoneV3Credentials credentials \<longrightarrow>
      get_auth_provider_class CONF credentials = (KeystoneV2AuthProvider, identity_uri CONF)) \<and>
   get_auth_provider_class CONF PyNone = (KeystoneV2AuthProvider, identity_uri CONF) \<and>
   get_auth_provider_class CONF (OtherObject name) = (KeystoneV2AuthProvider, identity_uri CONF)"
  by (simp add: get_auth_provider_class_def)

theorem get_auth_provider_class_total_witness:
  "\<not> isinstance_KeystoneV3Credentials PyNone \<and>
   get_auth_provider_class sample_conf PyNone = (KeystoneV2AuthProvider, PStr ''http://keystone/v2.0'') \<and>
   get_auth_provider_class sample_conf (OtherObject ''TestResources'')
     = (KeystoneV2AuthProvider, PStr ''http://keystone/v2.0'')"
  using get_auth_provider_class_total [of PyNone sample_conf "''TestResources''"]
  by (simp add: sample_conf_def)

section \<open>Properties of get\_auth\_provider\<close>

text \<open>
  C6. With \<^verbatim>\<open>credentials\<close> \<^verbatim>\<open>None\<close>, \<^verbatim>\<open>get_auth_provider\<close> raises \<^verbatim>\<open>InvalidCredentials\<close>.
  With credentials given (and no \<^verbatim>\<open>scope\<close> key among the default parameters, which
  would make the constructor call itself a \<^verbatim>\<open>TypeError\<close>) it returns the provider it
  constructed: with \<^verbatim>\<open>pre_auth=True\<close> after exactly one call of \<^verbatim>\<open>set_auth\<close> on that
  provider, with \<^verbatim>\<open>pre_auth=False\<close> with no call of \<^verbatim>\<open>set_auth\<close>.
\<close>

theorem get_auth_provider_pre_auth:
  "get_auth_provider CONF PyNone pre_auth scope
     = Inl (InvalidCredentials ''Credentials must be specified'') \<and>
   (credentials \<noteq> PyNone \<and> default_params CONF ''scope'' = None \<longrightarrow>
      (\<exists>p. p = new_provider (fst (get_auth_provider_class CONF credentials)) credentials
                  (snd (get_auth_provider_class CONF credentials))
                  ((default_params CONF)(''scope'' \<mapsto> scope)) \<and>
           set_auth_calls p = 0 \<and>
           get_auth_provider CONF credentials False scope = Inr p \<and>
           get_auth_provider CONF credentials True scope = Inr (set_auth p) \<and>
           set_auth_calls (set_auth p) = 1))"
  by (simp add: get_auth_provider_def call_kw_clash new_provider_def set_auth_def
           split: prod.splits)

theorem get_auth_provider_pre_auth_witness:
  "KeystoneV3Credentials [''username'' \<mapsto> PStr ''demo''] \<noteq> PyNone \<and>
   default_params sample_conf ''scope'' = None \<and>
   (\<exists>p. get_auth_provider sample_conf (KeystoneV3Credentials [''username'' \<mapsto> PStr ''demo''])
           True (PStr ''project'') = Inr p \<and>
        set_auth_calls p = 1 \<and> provider_class p = KeystoneV3AuthProvider \<and>
        provider_auth_url p = PStr ''http://keystone/v3'') \<and>
   (\<exists>p. get_auth_provider sample_conf (KeystoneV3Credentials [''username'' \<mapsto> PStr ''demo''])
           False (PStr ''project'') = Inr p \<and>
        set_auth_calls p = 0)"
  using get_auth_provider_pre_auth
          [of sample_conf False "PStr ''project''"
              "KeystoneV3Credentials [''username'' \<mapsto> PStr ''demo'']"]
  by (simp add: sample_conf_def get_auth_provider_class_def new_provider_def set_auth_def)

section \<open>Parameters of the compute clients\<close>

text \<open>
  C8. When the compute and volume parameter dictionaries exist (and the compute one has
  no \<^verbatim>\<open>enable_instance_password\<close> key, which would make the \<^verbatim>\<open>ServersClient\<close> call a
  \<^verbatim>\<open>TypeError\<close>), \<^verbatim>\<open>_set_compute_clients\<close> completes, and: the three volume-proxy
  clients are built with \<open>volume_proxy_params\<close>, the compute parameters in which
  \<^verbatim>\<open>build_interval\<close> and \<^verbatim>\<open>build_timeout\<close> are replaced by the volume values exactly
  when the volume dictionary has a truthy value under that key; every other compute
  client is built with the compute parameters as they are (\<^verbatim>\<open>servers_client\<close> with the
  keyword \<^verbatim>\<open>enable_instance_password\<close> added by the call).
\<close>

theorem compute_clients_parameters:
  assumes "parameters self ''compute'' = Some c" and "parameters self ''volume'' = Some v"
    and "c < length h" and "v < length h"
    and "(h ! c) ''enable_instance_password'' = None"
  shows "\<exists>self' h'. set_compute_clients CONF self h = Done self' h' \<and>
     (\<forall>(name, cl) \<in> set volume_proxy_clients.
        attrs self' name =
          Some \<lparr>client_class = cl, client_args = [AuthRef (auth_provider self)],
                client_kwargs = volume_proxy_params (h ! c) (h ! v)\<rparr>) \<and>
     (\<forall>(name, cl) \<in> set (compute_clients_before_servers @ compute_clients_after_servers).
        attrs self' name =
          Some \<lparr>client_class = cl, client_args = [AuthRef (auth_provider self)],
                client_kwargs = h ! c\<rparr>) \<and>
     attrs self' ''servers_client'' =
       Some \<lparr>client_class = ''compute.ServersClient'',
             client_args = [AuthRef (auth_provider self)],
             client_kwargs = (h ! c)(''enable_instance_password'' \<mapsto>
                compute_feature_enabled_enable_instance_password CONF)\<rparr>"
proof -
  define servers where "servers = \<lparr>client_class = ''compute.ServersClient'',
                    client_args = [AuthRef (auth_provider self)],
                    client_kwargs = (h ! c)(''enable_instance_password'' \<mapsto>
                       compute_feature_enabled_enable_instance_password CONF)\<rparr>"
  define s1 where "s1 = construct_all compute_clients_before_servers (h ! c) self"
  define s2 where "s2 = setattr ''servers_client'' servers s1"
  define s3 where "s3 = construct_all compute_clients_after_servers (h ! c) s2"
  define h' where "h' = snd (override_timeouts [''build_interval'', ''build_timeout''] s3
                               (length h) (h @ [h ! c]))"
  define s4 where "s4 = construct_all volume_proxy_clients (h' ! length h) s3"
  have res: "set_compute_clients CONF self h = Done s4 h'"
    unfolding s4_def h'_def s3_def s2_def s1_def servers_def
    using assms(1,2,5) by (rule set_compute_clients_result)
  have kw: "h' ! length h = volume_proxy_params (h ! c) (h ! v)"
    unfolding h'_def using _ assms(3,4)
    by (rule override_timeouts_volume_proxy_params) (simp add: s3_def s2_def s1_def assms(2))
  have ap: "auth_provider s3 = auth_provider self" "auth_provider s1 = auth_provider self"
    by (simp_all add: s3_def s2_def s1_def)
  note d = compute_names_distinct [simplified distinct_append map_append list.map distinct.simps]
  have d_before: "distinct (map fst compute_clients_before_servers)"
    and d_after: "distinct (map fst compute_clients_after_servers)"
    and d_proxy: "distinct (map fst volume_proxy_clients)"
    and servers_before: "''servers_client'' \<notin> fst ` set compute_clients_before_servers"
    and servers_after: "''servers_client'' \<notin> fst ` set compute_clients_after_servers"
    and servers_proxy: "''servers_client'' \<notin> fst ` set volume_proxy_clients"
    and disj_before: "fst ` set compute_clients_before_servers \<inter>
          (fst ` set compute_clients_after_servers \<union> fst ` set volume_proxy_clients) = {}"
    and disj_after: "fst ` set compute_clients_after_servers \<inter>
          fst ` set volume_proxy_clients = {}"
    using d by simp_all
  have before_other: "n \<notin> fst ` set compute_clients_after_servers"
    "n \<notin> fst ` set volume_proxy_clients" "n \<noteq> ''servers_client''"
    if "n \<in> fst ` set compute_clients_before_servers" for n
  proof -
    from disj_before that
    have "n \<notin> fst ` set compute_clients_after_servers \<union> fst ` set volume_proxy_clients"
      by (meson disjoint_iff)
    then show "n \<notin> fst ` set compute_clients_after_servers"
      "n \<notin> fst ` set volume_proxy_clients" by simp_all
    from servers_before that show "n \<noteq> ''servers_client''" by metis
  qed
  have after_other: "n \<notin> fst ` set volume_proxy_clients"
    if "n \<in> fst ` set compute_clients_after_servers" for n
    using disj_after that by (meson disjoint_iff)
  have proxy: "attrs s4 name =
      Some \<lparr>client_class = cl, client_args = [AuthRef (auth_provider self)],
            client_kwargs = volume_proxy_params (h ! c) (h ! v)\<rparr>"
    if "(name, cl) \<in> set volume_proxy_clients" for name cl
    unfolding s4_def using attrs_construct_all_in [OF d_proxy that, of "h' ! length h" s3]
    by (simp add: kw ap)
  have before: "attrs s4 name =
      Some \<lparr>client_class = cl, client_args = [AuthRef (auth_provider self)],
            client_kwargs = h ! c\<rparr>"
    if "(name, cl) \<in> set compute_clients_before_servers" for name cl
  proof -
    from that have n: "name \<in> fst ` set compute_clients_before_servers" by force
    have "attrs s4 name = attrs s3 name"
      unfolding s4_def by (rule attrs_construct_all_other) (rule before_other [OF n])
    also have "\<dots> = attrs s2 name"
      unfolding s3_def by (rule attrs_construct_all_other) (rule before_other [OF n])
    also have "\<dots> = attrs s1 name"
      unfolding s2_def using before_other(3) [OF n] by simp
    also have "\<dots> = Some \<lparr>client_class = cl, client_args = [AuthRef (auth_provider self)],
            client_kwargs = h ! c\<rparr>"
      unfolding s1_def by (rule attrs_construct_all_in [OF d_before that])
    finally show ?thesis .
  qed
  have after: "attrs s4 name =
      Some \<lparr>client_class = cl, client_args = [AuthRef (auth_provider self)],
            client_kwargs = h ! c\<rparr>"
    if "(name, cl) \<in> set compute_clients_after_servers" for name cl
  proof -
    from that have n: "name \<in> fst ` set compute_clients_after_servers" by force
    have "attrs s4 name = attrs s3 name"
      unfolding s4_def by (rule attrs_construct_all_other) (rule after_other [OF n])
    also have "\<dots> = Some \<lparr>client_class = cl, client_args = [AuthRef (auth_provider s2)],
            client_kwargs = h ! c\<rparr>"
      unfolding s3_def by (rule attrs_construct_all_in [OF d_after that])
    finally show ?thesis by (simp add: s2_def ap)
  qed
  have servers: "attrs s4 ''servers_client'' = Some servers"
  proof -
    have "attrs s4 ''servers_client'' = attrs s3 ''servers_client''"
      unfolding s4_def by (rule attrs_construct_all_other) (rule servers_proxy)
    also have "\<dots> = attrs s2 ''servers_client''"
      unfolding s3_def by (rule attrs_construct_all_other) (rule servers_after)
    finally show ?thesis by (simp add: s2_def)
  qed
  have both: "attrs s4 name =
      Some \<lparr>client_class = cl, client_args = [AuthRef (auth_provider self)],
            client_kwargs = h ! c\<rparr>"
    if "(name, cl) \<in> set (compute_clients_before_servers @ compute_clients_after_servers)"
    for name cl
    using that before after by (simp only: set_append Un_iff) blast
  have "(\<forall>(name, cl) \<in> set volume_proxy_clients.
        attrs s4 name =
          Some \<lparr>client_class = cl, client_args = [AuthRef (auth_provider self)],
                client_kwargs = volume_proxy_params (h ! c) (h ! v)\<rparr>)"
    using proxy by fast
  moreover have "(\<forall>(name, cl) \<in> set (compute_clients_before_servers @ compute_clients_after_servers).
        attrs s4 name =
          Some \<lparr>client_class = cl, client_args = [AuthRef (auth_provider self)],
                client_kwargs = h ! c\<rparr>)"
    using both by fast
  ultimately show ?thesis
    using res servers unfolding servers_def by blast
qed

theorem compute_clients_parameters_witness:
  "parameters sample_self ''compute'' = Some 0 \<and> parameters sample_self ''volume'' = Some 5 \<and>
   0 < length sample_heap \<and> 5 < length sample_heap \<and>
   (sample_heap ! 0) ''enable_instance_password'' = None \<and>
   (\<exists>self' h'. set_compute_clients sample_conf sample_self sample_heap = Done self' h' \<and>
      (\<exists>kw. attrs self' ''volumes_extensions_client'' =
               Some \<lparr>client_class = ''compute.VolumesClient'', client_args = [AuthRef 0],
                     client_kwargs = kw\<rparr> \<and>
            kw ''build_interval'' = Some (PInt 1) \<and> kw ''build_timeout'' = Some (PInt 300)) \<and>
      (\<exists>kw. attrs self' ''agents_client'' =
               Some \<lparr>client_class = ''compute.AgentsClient'', client_args = [AuthRef 0],
                     client_kwargs = kw\<rparr> \<and>
            kw ''build_interval'' = Some (PInt 1) \<and> kw ''build_timeout'' = Some (PInt 60)))"
proof -
  have hyp: "parameters sample_self ''compute'' = Some 0"
    "parameters sample_self ''volume'' = Some 5"
    "0 < length sample_heap" "5 < length sample_heap"
    "(sample_heap ! 0) ''enable_instance_password'' = None"
    by (simp_all add: sample_self_def sample_heap_def sample_params_def)
  have kw: "volume_proxy_params (sample_heap ! 0) (sample_heap ! 5) ''build_interval'' = Some (PInt 1)"
    "volume_proxy_params (sample_heap ! 0) (sample_heap ! 5) ''build_timeout'' = Some (PInt 300)"
    "(sample_heap ! 0) ''build_interval'' = Some (PInt 1)"
    "(sample_heap ! 0) ''build_timeout'' = Some (PInt 60)"
    by (simp_all add: volume_proxy_params_def sample_heap_def sample_params_def)
  have ap: "auth_provider sample_self = 0" by (simp add: sample_self_def)
  from compute_clients_parameters [OF hyp, of sample_conf]
  obtain self' h' where r: "set_compute_clients sample_conf sample_self sample_heap = Done self' h'"
    and proxy: "\<forall>(name, cl) \<in> set volume_proxy_clients.
        attrs self' name =
          Some \<lparr>client_class = cl, client_args = [AuthRef (auth_provider sample_self)],
                client_kwargs = volume_proxy_params (sample_heap ! 0) (sample_heap ! 5)\<rparr>"
    and rest: "\<forall>(name, cl) \<in> set (compute_clients_before_servers @ compute_clients_after_servers).
        attrs self' name =
          Some \<lparr>client_class = cl, client_args = [AuthRef (auth_provider sample_self)],
                client_kwargs = sample_heap ! 0\<rparr>"
    by blast
  from proxy have "attrs self' ''volumes_extensions_client'' =
      Some \<lparr>client_class = ''compute.VolumesClient'', client_args = [AuthRef 0],
            client_kwargs = volume_proxy_params (sample_heap ! 0) (sample_heap ! 5)\<rparr>"
    by (simp add: volume_proxy_clients_def ap)
  moreover from rest have "attrs self' ''agents_client'' =
      Some \<lparr>client_class = ''compute.AgentsClient'', client_args = [AuthRef 0],
            client_kwargs = sample_heap ! 0\<rparr>"
    by (simp add: compute_clients_before_servers_def ap)
  ultimately show ?thesis using hyp r kw by blast
qed

section \<open>Token clients\<close>

text \<open>
  C2. Let Manager construction reach the token clients: the compute clients
  were built and the identity parameters exist. If the identity v2 API is enabled and
  \<^verbatim>\<open>identity.uri\<close> is unset, construction raises \<^verbatim>\<open>InvalidConfiguration\<close> and
  \<^verbatim>\<open>token_client\<close> is not set. If the v3 API is enabled and \<^verbatim>\<open>identity.uri_v3\<close> is
  unset, construction raises \<^verbatim>\<open>InvalidConfiguration\<close> and \<^verbatim>\<open>token_v3_client\<close> is not set.
  If the v2 API is enabled and its URI is set, \<^verbatim>\<open>token_client\<close> is set. If the v3 API is
  enabled and its URI is set, \<^verbatim>\<open>token_v3_client\<close> is set provided the v2 check before it
  did not raise (v2 disabled, or \<^verbatim>\<open>identity.uri\<close> set).
\<close>

theorem token_clients:
  assumes "parameters self ''compute'' = Some c" and "parameters self ''volume'' = Some v"
    and "(h ! c) ''enable_instance_password'' = None"
    and "parameters self ''identity'' = Some p"
  shows
    "(identity_feature_enabled_api_v2 CONF \<and> \<not> truthy (identity_uri CONF) \<longrightarrow>
        raised (Manager_clients CONF service self h) =
          Some (InvalidConfiguration ''Identity v2 API enabled, but no identity.uri set'') \<and>
        attrs (final_self (Manager_clients CONF service self h)) ''token_client'' =
          attrs self ''token_client'') \<and>
     (identity_feature_enabled_api_v3 CONF \<and> \<not> truthy (identity_uri_v3 CONF) \<longrightarrow>
        (\<exists>msg. raised (Manager_clients CONF service self h) =
           Some (InvalidConfiguration msg)) \<and>
        attrs (final_self (Manager_clients CONF service self h)) ''token_v3_client'' =
          attrs self ''token_v3_client'') \<and>
     (identity_feature_enabled_api_v2 CONF \<and> truthy (identity_uri CONF) \<longrightarrow>
        attrs (final_self (Manager_clients CONF service self h)) ''token_client'' =
          Some \<lparr>client_class = ''identity.v2.TokenClient'',
                client_args = [Val (identity_uri CONF)],
                client_kwargs = default_params CONF\<rparr>) \<and>
     (identity_feature_enabled_api_v3 CONF \<and> truthy (identity_uri_v3 CONF) \<and>
      (identity_feature_enabled_api_v2 CONF \<longrightarrow> truthy (identity_uri CONF)) \<longrightarrow>
        attrs (final_self (Manager_clients CONF service self h)) ''token_v3_client'' =
          Some \<lparr>client_class = ''identity.v3.V3TokenClient'',
                client_args = [Val (identity_uri_v3 CONF)],
                client_kwargs = default_params CONF\<rparr>)"
  using Manager_clients_token_client [OF assms, of CONF service]
    Manager_clients_token_v3_client [OF assms, of CONF service]
    Manager_clients_raised_token [OF assms, of CONF service]
  by auto

theorem token_clients_witness:
  "parameters sample_self ''compute'' = Some 0 \<and> parameters sample_self ''volume'' = Some 5 \<and>
   (sample_heap ! 0) ''enable_instance_password'' = None \<and>
   parameters sample_self ''identity'' = Some 1 \<and>
   raised (Manager_clients sample_conf_no_uri PNone sample_self sample_heap) =
     Some (InvalidConfiguration ''Identity v2 API enabled, but no identity.uri set'') \<and>
   attrs (final_self (Manager_clients sample_conf_no_uri PNone sample_self sample_heap))
     ''token_client'' = None \<and>
   (\<exists>msg. raised (Manager_clients sample_conf_no_uri_v3 PNone sample_self sample_heap) =
      Some (InvalidConfiguration msg)) \<and>
   attrs (final_self (Manager_clients sample_conf_no_uri_v3 PNone sample_self sample_heap))
     ''token_v3_client'' = None \<and>
   attrs (final_self (Manager_clients sample_conf_no_uri_v3 PNone sample_self sample_heap))
     ''token_client'' =
       Some \<lparr>client_class = ''identity.v2.TokenClient'',
             client_args = [Val (PStr ''http://keystone/v2.0'')],
             client_kwargs = [''trace_requests'' \<mapsto> PStr []]\<rparr> \<and>
   attrs (final_self (Manager_clients sample_conf PNone sample_self sample_heap))
     ''token_v3_client'' =
       Some \<lparr>client_class = ''identity.v3.V3TokenClient'',
             client_args = [Val (PStr ''http://keystone/v3'')],
             client_kwargs = [''trace_requests'' \<mapsto> PStr []]\<rparr>"
proof -
  have hyp: "parameters sample_self ''compute'' = Some 0"
    "parameters sample_self ''volume'' = Some 5"
    "(sample_heap ! 0) ''enable_instance_password'' = None"
    "parameters sample_self ''identity'' = Some 1"
    by (simp_all add: sample_self_def sample_heap_def sample_params_def)
  show ?thesis
    using hyp token_clients [OF hyp, of sample_conf_no_uri PNone]
      token_clients [OF hyp, of sample_conf_no_uri_v3 PNone]
      token_clients [OF hyp, of sample_conf PNone]
    by (simp add: sample_conf_no_uri_def sample_conf_no_uri_v3_def sample_conf_def
          sample_self_def)
qed

text \<open>
  With both API versions enabled, \<^verbatim>\<open>identity.uri_v3\<close> set and \<^verbatim>\<open>identity.uri\<close> unset, the
  v2 check raises first: \<^verbatim>\<open>token_v3_client\<close> is not set although the v3 API is enabled
  and its URI is set.
\<close>

theorem token_clients_counterexample:
  "identity_feature_enabled_api_v3 sample_conf_no_uri \<and>
   truthy (identity_uri_v3 sample_conf_no_uri) \<and>
   attrs (final_self (Manager_clients sample_conf_no_uri PNone sample_self sample_heap))
     ''token_v3_client'' = None \<and>
   raised (Manager_clients sample_conf_no_uri PNone sample_self sample_heap) =
     Some (InvalidConfiguration ''Identity v2 API enabled, but no identity.uri set'')"
proof -
  have hyp: "parameters sample_self ''compute'' = Some 0"
    "parameters sample_self ''volume'' = Some 5"
    "(sample_heap ! 0) ''enable_instance_password'' = None"
    "parameters sample_self ''identity'' = Some 1"
    by (simp_all add: sample_self_def sample_heap_def sample_params_def)
  show ?thesis
    using Manager_clients_token_v3_client [OF hyp, of sample_conf_no_uri PNone]
      Manager_clients_raised_token [OF hyp, of sample_conf_no_uri PNone]
    by (simp add: sample_conf_no_uri_def sample_conf_def sample_self_def)
qed

section \<open>The shared auth provider\<close>

text \<open>
  C4. Whatever Manager construction reaches, \<^verbatim>\<open>self.auth_provider\<close> stays the
  same object, and every client attribute it sets, other than \<^verbatim>\<open>token_client\<close> and
  \<^verbatim>\<open>token_v3_client\<close>, was built with that object as its first argument. So any two of
  these clients refer to the same auth provider.
\<close>

theorem clients_share_auth_provider:
  "auth_provider (final_self (Manager_clients CONF service self h)) = auth_provider self \<and>
   (\<forall>name c. attrs (final_self (Manager_clients CONF service self h)) name = Some c \<longrightarrow>
      attrs self name = Some c \<or> name = ''token_client'' \<or> name = ''token_v3_client'' \<or>
      client_auth c = Some (auth_provider self))"
  using framed_Manager_clients [of UNIV CONF self h service]
  by (simp add: framed_def extends_def)

theorem clients_share_auth_provider_witness:
  "\<exists>c. attrs (final_self (Manager_clients sample_conf PNone sample_self sample_heap))
          ''image_client'' = Some c \<and>
       client_auth c = Some 0 \<and>
       auth_provider (final_self (Manager_clients sample_conf PNone sample_self sample_heap)) = 0"
proof -
  have c: "constructible sample_conf sample_self sample_heap"
    by (simp add: constructible_def sample_conf_def sample_self_def sample_heap_def
          sample_params_def)
  have g: "service_available_glance sample_conf"
    by (simp add: sample_conf_def)
  have m: "(''image_client'', ''image.v1.ImagesClient'') \<in> set image_clients"
    by (simp add: image_clients_def)
  from Manager_clients_image_set [OF g m, of PNone sample_self sample_heap]
    Manager_clients_Done [OF c, of PNone]
  obtain c where a:
    "attrs (final_self (Manager_clients sample_conf PNone sample_self sample_heap))
       ''image_client'' = Some c"
    by (auto simp: on_completion_def)
  have s: "attrs sample_self ''image_client'' = None" "auth_provider sample_self = 0"
    by (simp_all add: sample_self_def)
  note t = clients_share_auth_provider [of sample_conf PNone sample_self sample_heap]
  from t have "attrs (final_self (Manager_clients sample_conf PNone sample_self sample_heap))
       ''image_client'' = Some c \<longrightarrow>
     attrs sample_self ''image_client'' = Some c \<or> ''image_client'' = ''token_client'' \<or>
     ''image_client'' = ''token_v3_client'' \<or> client_auth c = Some (auth_provider sample_self)"
    by (elim conjE allE)
  with a s have "client_auth c = Some 0" by simp
  moreover from t s
  have "auth_provider (final_self (Manager_clients sample_conf PNone sample_self sample_heap))
          = 0"
    by simp
  ultimately have "client_auth c = Some 0"
    "auth_provider (final_self (Manager_clients sample_conf PNone sample_self sample_heap)) = 0"
    by simp_all
  with a show ?thesis by simp
qed

text \<open>
  The token clients are built from the identity URI and are given no auth provider:
  for the sample configuration construction completes, \<^verbatim>\<open>token_client\<close> is set and
  refers to no auth provider, while \<^verbatim>\<open>image_client\<close> refers to the Manager's.
\<close>

theorem clients_share_auth_provider_counterexample:
  "raised (Manager_clients sample_conf PNone sample_self sample_heap) = None \<and>
   attrs (final_self (Manager_clients sample_conf PNone sample_self sample_heap))
     ''token_client'' =
       Some \<lparr>client_class = ''identity.v2.TokenClient'',
             client_args = [Val (PStr ''http://keystone/v2.0'')],
             client_kwargs = [''trace_requests'' \<mapsto> PStr []]\<rparr> \<and>
   client_auth \<lparr>client_class = ''identity.v2.TokenClient'',
             client_args = [Val (PStr ''http://keystone/v2.0'')],
             client_kwargs = [''trace_requests'' \<mapsto> PStr []]\<rparr> = None \<and>
   attrs (final_self (Manager_clients sample_conf PNone sample_self sample_heap))
     ''image_client'' \<noteq> None \<and>
   client_auth (the (attrs (final_self (Manager_clients sample_conf PNone sample_self
     sample_heap)) ''image_client'')) = Some (auth_provider sample_self)"
proof -
  have hyp: "parameters sample_self ''compute'' = Some 0"
    "parameters sample_self ''volume'' = Some 5"
    "(sample_heap ! 0) ''enable_instance_password'' = None"
    "parameters sample_self ''identity'' = Some 1"
    by (simp_all add: sample_self_def sample_heap_def sample_params_def)
  have c: "constructible sample_conf sample_self sample_heap"
    by (simp add: constructible_def sample_conf_def sample_self_def sample_heap_def
          sample_params_def)
  have g: "service_available_glance sample_conf"
    by (simp add: sample_conf_def)
  have m: "(''image_client'', ''image.v1.ImagesClient'') \<in> set image_clients"
    by (simp add: image_clients_def)
  have fin: "raised (Manager_clients sample_conf PNone sample_self sample_heap) = None"
    using c by (rule Manager_clients_Done)
  have token: "attrs (final_self (Manager_clients sample_conf PNone sample_self sample_heap))
     ''token_client'' =
       Some \<lparr>client_class = ''identity.v2.TokenClient'',
             client_args = [Val (PStr ''http://keystone/v2.0'')],
             client_kwargs = [''trace_requests'' \<mapsto> PStr []]\<rparr>"
    using Manager_clients_token_client [OF hyp, of sample_conf PNone]
    by (simp add: sample_conf_def)
  from Manager_clients_image_set [OF g m, of PNone sample_self sample_heap] fin
  obtain c where a:
    "attrs (final_self (Manager_clients sample_conf PNone sample_self sample_heap))
       ''image_client'' = Some c"
    by (auto simp: on_completion_def)
  have "extends UNIV sample_self
          (final_self (Manager_clients sample_conf PNone sample_self sample_heap))"
    using framed_Manager_clients [of UNIV sample_conf sample_self sample_heap PNone]
    by (simp add: framed_def)
  then have "attrs (final_self (Manager_clients sample_conf PNone sample_self sample_heap))
       ''image_client'' = Some c \<longrightarrow>
     attrs sample_self ''image_client'' = Some c \<or> ''image_client'' = ''token_client'' \<or>
     ''image_client'' = ''token_v3_client'' \<or> client_auth c = Some (auth_provider sample_self)"
    unfolding extends_def by (elim conjE allE)
  with a have "client_auth c = Some (auth_provider sample_self)"
    by (simp add: sample_self_def)
  with a fin token show ?thesis by (simp add: client_auth_def)
qed

section \<open>Overrides work on copies\<close>

text \<open>
  C10. \<^verbatim>\<open>_set_identity_clients\<close> and \<^verbatim>\<open>_set_compute_clients\<close> leave \<^verbatim>\<open>self.parameters\<close>
  and every dictionary that existed before the call unchanged (they only allocate new
  dictionaries), so \<^verbatim>\<open>self.parameters['identity']\<close> and \<^verbatim>\<open>self.parameters['compute']\<close>
  have the entries they had. Each identity group is built with the identity parameters
  and its own \<^verbatim>\<open>endpoint_type\<close>: the v2 admin, the v2 public and the v3 one.
\<close>

theorem overrides_on_copies:
  "parameters (final_self (set_identity_clients CONF self h)) = parameters self \<and>
   take (length h) (final_heap (set_identity_clients CONF self h)) = h \<and>
   parameters (final_self (set_compute_clients CONF self h)) = parameters self \<and>
   take (length h) (final_heap (set_compute_clients CONF self h)) = h \<and>
   (parameters self ''compute'' = Some c \<and> c < length h \<longrightarrow>
      final_heap (set_compute_clients CONF self h) ! c = h ! c) \<and>
   (parameters self ''identity'' = Some p \<and> p < length h \<longrightarrow>
      final_heap (set_identity_clients CONF self h) ! p = h ! p \<and>
      (\<forall>(name, cl) \<in> set identity_v2_admin_clients.
         attrs (final_self (set_identity_clients CONF self h)) name =
           Some \<lparr>client_class = cl, client_args = [AuthRef (auth_provider self)],
                 client_kwargs =
                   (h ! p)(''endpoint_type'' \<mapsto> identity_v2_admin_endpoint_type CONF)\<rparr>) \<and>
      (\<forall>(name, cl) \<in> set identity_v2_public_clients.
         attrs (final_self (set_identity_clients CONF self h)) name =
           Some \<lparr>client_class = cl, client_args = [AuthRef (auth_provider self)],
                 client_kwargs =
                   (h ! p)(''endpoint_type'' \<mapsto> identity_v2_public_endpoint_type CONF)\<rparr>) \<and>
      (\<forall>(name, cl) \<in> set identity_v3_clients.
         attrs (final_self (set_identity_clients CONF self h)) name =
           Some \<lparr>client_class = cl, client_args = [AuthRef (auth_provider self)],
                 client_kwargs =
                   (h ! p)(''endpoint_type'' \<mapsto> identity_v3_endpoint_type CONF)\<rparr>))"
proof -
  have gi: "grows h (final_heap (set_identity_clients CONF self h))"
    and gc: "grows h (final_heap (set_compute_clients CONF self h))"
    by (rule after_set_identity_clients after_set_compute_clients)+
  have groups: "(\<forall>(name, cl) \<in> set identity_v2_admin_clients.
         attrs (final_self (set_identity_clients CONF self h)) name =
           Some \<lparr>client_class = cl, client_args = [AuthRef (auth_provider self)],
                 client_kwargs =
                   (h ! p)(''endpoint_type'' \<mapsto> identity_v2_admin_endpoint_type CONF)\<rparr>) \<and>
      (\<forall>(name, cl) \<in> set identity_v2_public_clients.
         attrs (final_self (set_identity_clients CONF self h)) name =
           Some \<lparr>client_class = cl, client_args = [AuthRef (auth_provider self)],
                 client_kwargs =
                   (h ! p)(''endpoint_type'' \<mapsto> identity_v2_public_endpoint_type CONF)\<rparr>) \<and>
      (\<forall>(name, cl) \<in> set identity_v3_clients.
         attrs (final_self (set_identity_clients CONF self h)) name =
           Some \<lparr>client_class = cl, client_args = [AuthRef (auth_provider self)],
                 client_kwargs =
                   (h ! p)(''endpoint_type'' \<mapsto> identity_v3_endpoint_type CONF)\<rparr>)"
    if "parameters self ''identity'' = Some p" "p < length h"
    using identity_groups_attrs [OF that, of _ _ CONF] by fast
  show ?thesis
    using gi gc groups grows_nth [OF gi, of p] grows_nth [OF gc, of c]
    by (simp add: after_set_identity_clients after_set_compute_clients grows_def)
qed

theorem overrides_on_copies_witness:
  "parameters sample_self ''compute'' = Some 0 \<and> 0 < length sample_heap \<and>
   parameters sample_self ''identity'' = Some 1 \<and> 1 < length sample_heap \<and>
   final_heap (set_compute_clients sample_conf sample_self sample_heap) ! 0 = sample_heap ! 0 \<and>
   final_heap (set_identity_clients sample_conf sample_self sample_heap) ! 1 = sample_heap ! 1 \<and>
   (sample_heap ! 1) ''endpoint_type'' = Some (PStr ''publicURL'') \<and>
   (\<exists>c. attrs (final_self (set_identity_clients sample_conf sample_self sample_heap))
           ''endpoints_client'' = Some c \<and>
        client_kwargs c ''endpoint_type'' = Some (PStr ''adminURL'')) \<and>
   (\<exists>c. attrs (final_self (set_identity_clients sample_conf sample_self sample_heap))
           ''identity_public_client'' = Some c \<and>
        client_kwargs c ''endpoint_type'' = Some (PStr ''publicURL'')) \<and>
   (\<exists>c. attrs (final_self (set_identity_clients sample_conf sample_self sample_heap))
           ''domains_client'' = Some c \<and>
        client_kwargs c ''endpoint_type'' = Some (PStr ''internalURL''))"
proof -
  have hyp: "parameters sample_self ''compute'' = Some 0" "0 < length sample_heap"
    "parameters sample_self ''identity'' = Some 1" "1 < length sample_heap"
    "(sample_heap ! 1) ''endpoint_type'' = Some (PStr ''publicURL'')"
    by (simp_all add: sample_self_def sample_heap_def sample_params_def)
  have et: "identity_v2_admin_endpoint_type sample_conf = PStr ''adminURL''"
    "identity_v2_public_endpoint_type sample_conf = PStr ''publicURL''"
    "identity_v3_endpoint_type sample_conf = PStr ''internalURL''"
    by (simp_all add: sample_conf_def)
  note t = overrides_on_copies [of sample_conf sample_self sample_heap 0 1]
  from t hyp have heap:
    "final_heap (set_compute_clients sample_conf sample_self sample_heap) ! 0 = sample_heap ! 0"
    "final_heap (set_identity_clients sample_conf sample_self sample_heap) ! 1 = sample_heap ! 1"
    by blast+
  from t hyp have admin: "\<forall>(name, cl) \<in> set identity_v2_admin_clients.
         attrs (final_self (set_identity_clients sample_conf sample_self sample_heap)) name =
           Some \<lparr>client_class = cl, client_args = [AuthRef (auth_provider sample_self)],
                 client_kwargs = (sample_heap ! 1)(''endpoint_type'' \<mapsto>
                    identity_v2_admin_endpoint_type sample_conf)\<rparr>"
    by blast
  from t hyp have public: "\<forall>(name, cl) \<in> set identity_v2_public_clients.
         attrs (final_self (set_identity_clients sample_conf sample_self sample_heap)) name =
           Some \<lparr>client_class = cl, client_args = [AuthRef (auth_provider sample_self)],
                 client_kwargs = (sample_heap ! 1)(''endpoint_type'' \<mapsto>
                    identity_v2_public_endpoint_type sample_conf)\<rparr>"
    by blast
  from t hyp have v3: "\<forall>(name, cl) \<in> set identity_v3_clients.
         attrs (final_self (set_identity_clients sample_conf sample_self sample_heap)) name =
           Some \<lparr>client_class = cl, client_args = [AuthRef (auth_provider sample_self)],
                 client_kwargs = (sample_heap ! 1)(''endpoint_type'' \<mapsto>
                    identity_v3_endpoint_type sample_conf)\<rparr>"
    by blast
  from admin have a: "\<exists>c. attrs (final_self (set_identity_clients sample_conf sample_self
       sample_heap)) ''endpoints_client'' = Some c \<and>
        client_kwargs c ''endpoint_type'' = Some (PStr ''adminURL'')"
    by (simp add: identity_v2_admin_clients_def et)
  from public have b: "\<exists>c. attrs (final_self (set_identity_clients sample_conf sample_self
       sample_heap)) ''identity_public_client'' = Some c \<and>
        client_kwargs c ''endpoint_type'' = Some (PStr ''publicURL'')"
    by (simp add: identity_v2_public_clients_def et)
  from v3 have c: "\<exists>c. attrs (final_self (set_identity_clients sample_conf sample_self
       sample_heap)) ''domains_client'' = Some c \<and>
        client_kwargs c ''endpoint_type'' = Some (PStr ''internalURL'')"
    by (simp add: identity_v3_clients_def et)
  show ?thesis using hyp heap a b c by blast
qed

section \<open>Image clients\<close>

text \<open>
  C3. When the image service is flagged unavailable, Manager construction leaves each of
  the seven image attributes as it was (unset on a fresh object), however far
  construction gets. When it is flagged available and the configuration is complete
  (\<open>constructible\<close>: every parameter dictionary needed exists, the enabled identity
  versions have their URIs, and no keyword is passed twice), construction completes
  and each of the seven image attributes holds a client of its class.
\<close>

theorem image_clients_gated:
  "(\<not> service_available_glance CONF \<longrightarrow>
      (\<forall>n \<in> fst ` set image_clients.
         attrs (final_self (Manager_clients CONF service self h)) n = attrs self n)) \<and>
   (service_available_glance CONF \<and> constructible CONF self h \<longrightarrow>
      raised (Manager_clients CONF service self h) = None \<and>
      (\<forall>(n, cl) \<in> set image_clients.
         \<exists>c. attrs (final_self (Manager_clients CONF service self h)) n = Some c \<and>
             client_class c = cl))"
proof -
  have set: "\<forall>(n, cl) \<in> set image_clients.
         \<exists>c. attrs (final_self (Manager_clients CONF service self h)) n = Some c \<and>
             client_class c = cl"
    if "service_available_glance CONF" "raised (Manager_clients CONF service self h) = None"
    using Manager_clients_image_set [OF that(1), of _ _ service self h] that(2)
    unfolding on_completion_def by fast
  show ?thesis
  proof (intro conjI impI)
    assume "\<not> service_available_glance CONF"
    then show "\<forall>n \<in> fst ` set image_clients.
      attrs (final_self (Manager_clients CONF service self h)) n = attrs self n"
      by (simp add: Manager_clients_image_kept)
  next
    assume "service_available_glance CONF \<and> constructible CONF self h"
    then show "raised (Manager_clients CONF service self h) = None"
      by (simp add: Manager_clients_Done)
  next
    assume a: "service_available_glance CONF \<and> constructible CONF self h"
    then have "raised (Manager_clients CONF service self h) = None"
      by (simp add: Manager_clients_Done)
    with a show "\<forall>(n, cl) \<in> set image_clients.
         \<exists>c. attrs (final_self (Manager_clients CONF service self h)) n = Some c \<and>
             client_class c = cl"
      by (intro set) simp_all
  qed
qed

theorem image_clients_gated_witness:
  "\<not> service_available_glance sample_conf_no_glance \<and>
   attrs (final_self (Manager_clients sample_conf_no_glance PNone sample_self sample_heap))
     ''image_client'' = None \<and>
   attrs (final_self (Manager_clients sample_conf_no_glance PNone sample_self sample_heap))
     ''schemas_client'' = None \<and>
   service_available_glance sample_conf \<and> constructible sample_conf sample_self sample_heap \<and>
   raised (Manager_clients sample_conf PNone sample_self sample_heap) = None \<and>
   (\<exists>c. attrs (final_self (Manager_clients sample_conf PNone sample_self sample_heap))
          ''image_client'' = Some c \<and> client_class c = ''image.v1.ImagesClient'') \<and>
   (\<exists>c. attrs (final_self (Manager_clients sample_conf PNone sample_self sample_heap))
          ''schemas_client'' = Some c \<and> client_class c = ''image.v2.SchemasClient'')"
proof -
  have g: "\<not> service_available_glance sample_conf_no_glance"
    "service_available_glance sample_conf"
    by (simp_all add: sample_conf_no_glance_def sample_conf_def)
  have c: "constructible sample_conf sample_self sample_heap"
    by (simp add: constructible_def sample_conf_def sample_self_def sample_heap_def
          sample_params_def)
  have e: "attrs sample_self ''image_client'' = None" "attrs sample_self ''schemas_client'' = None"
    by (simp_all add: sample_self_def)
  note off = image_clients_gated [of sample_conf_no_glance PNone sample_self sample_heap]
  note on = image_clients_gated [of sample_conf PNone sample_self sample_heap]
  from off g(1) have "\<forall>n \<in> fst ` set image_clients.
      attrs (final_self (Manager_clients sample_conf_no_glance PNone sample_self sample_heap)) n
        = attrs sample_self n"
    by simp
  then have none:
    "attrs (final_self (Manager_clients sample_conf_no_glance PNone sample_self sample_heap))
       ''image_client'' = None"
    "attrs (final_self (Manager_clients sample_conf_no_glance PNone sample_self sample_heap))
       ''schemas_client'' = None"
    using e by (simp_all add: image_clients_def)
  from on g c have r: "raised (Manager_clients sample_conf PNone sample_self sample_heap) = None"
    and all: "\<forall>(n, cl) \<in> set image_clients.
         \<exists>c. attrs (final_self (Manager_clients sample_conf PNone sample_self sample_heap)) n
               = Some c \<and> client_class c = cl"
    by simp_all
  from all have some:
    "\<exists>c. attrs (final_self (Manager_clients sample_conf PNone sample_self sample_heap))
          ''image_client'' = Some c \<and> client_class c = ''image.v1.ImagesClient''"
    "\<exists>c. attrs (final_self (Manager_clients sample_conf PNone sample_self sample_heap))
          ''schemas_client'' = Some c \<and> client_class c = ''image.v2.SchemasClient''"
    by (simp_all add: image_clients_def)
  show ?thesis using g c none r some by simp
qed

section \<open>Resolving the configuration\<close>

text \<open>
  C7. \<^verbatim>\<open>_prepare_configuration\<close> keys what it fetches by the unversioned service name and
  keeps it in its local dictionary: the entries are exactly the unversioned names of
  the modules whose configuration can be fetched, each entry is the dictionary fetched
  for that name, and such a name is fetched at most once. For a module whose
  configuration raises the unknown-service error, the warning for that module is logged
  and its service has no entry. The method then returns normally (provided the
  configuration subsystem raises nothing but unknown-service errors for these names);
  in no case does it raise an unknown-service error itself.
\<close>

theorem prepare_configuration_best_effort:
  "(only_unknown CONF (tempest_modules CONF) \<longrightarrow>
     (\<exists>st h'. prepare_configuration CONF h = Inr (st, h') \<and>
        take (length h) h' = h \<and>
        (\<forall>n. configuration st n \<noteq> None \<longleftrightarrow>
           n \<in> unversioned ` set (tempest_modules CONF) \<and>
           (\<exists>d. service_client_config CONF n = Inr d)) \<and>
        (\<forall>n r. configuration st n = Some r \<longrightarrow>
           r < length h' \<and> service_client_config CONF n = Inr (h' ! r)) \<and>
        (\<forall>n d. service_client_config CONF n = Inr d \<longrightarrow> count_list (fetches st) n \<le> 1) \<and>
        (\<forall>s \<in> set (tempest_modules CONF).
           (\<exists>x. service_client_config CONF (unversioned s) = Inl (UnknownServiceClient x)) \<longrightarrow>
           configuration st (unversioned s) = None \<and>
           ''Could not load configuration for service '' @ s \<in> set (warnings st)))) \<and>
   (\<forall>e. prepare_configuration CONF h = Inl e \<longrightarrow> (\<forall>x. e \<noteq> UnknownServiceClient x))"
proof (intro conjI impI allI)
  assume ok: "only_unknown CONF (tempest_modules CONF)"
  let ?st0 = "\<lparr>configuration = Map.empty, warnings = [], fetches = []\<rparr>"
  have "prep_inv CONF ?st0 h" by (simp add: prep_inv_def)
  from prepare_services_correct [OF ok this] obtain st h' where
    r: "prepare_configuration CONF h = Inr (st, h')" and
    i: "prep_inv CONF st h'" and g: "grows h h'" and
    d: "\<forall>n. configuration st n \<noteq> None \<longleftrightarrow>
        n \<in> unversioned ` set (tempest_modules CONF) \<and>
        (\<exists>d. service_client_config CONF n = Inr d)" and
    w: "\<forall>s \<in> set (tempest_modules CONF).
        (\<exists>x. service_client_config CONF (unversioned s) = Inl (UnknownServiceClient x)) \<longrightarrow>
        ''Could not load configuration for service '' @ s \<in> set (warnings st)"
    unfolding prepare_configuration_def by auto
  from i have stored: "\<forall>n r. configuration st n = Some r \<longrightarrow>
           r < length h' \<and> service_client_config CONF n = Inr (h' ! r)"
    and once: "\<forall>n d. service_client_config CONF n = Inr d \<longrightarrow> count_list (fetches st) n \<le> 1"
    by (simp_all add: prep_inv_def)
  have absent: "\<forall>s \<in> set (tempest_modules CONF).
           (\<exists>x. service_client_config CONF (unversioned s) = Inl (UnknownServiceClient x)) \<longrightarrow>
           configuration st (unversioned s) = None \<and>
           ''Could not load configuration for service '' @ s \<in> set (warnings st)"
  proof (intro ballI impI conjI)
    fix s
    assume s: "s \<in> set (tempest_modules CONF)"
      and u: "\<exists>x. service_client_config CONF (unversioned s) = Inl (UnknownServiceClient x)"
    from u have "\<not> (\<exists>d. service_client_config CONF (unversioned s) = Inr d)" by auto
    with d show "configuration st (unversioned s) = None" by blast
    from w s u show "''Could not load configuration for service '' @ s \<in> set (warnings st)"
      by blast
  qed
  from g have t: "take (length h) h' = h" by (simp add: grows_def)
  show "\<exists>st h'. prepare_configuration CONF h = Inr (st, h') \<and>
        take (length h) h' = h \<and>
        (\<forall>n. configuration st n \<noteq> None \<longleftrightarrow>
           n \<in> unversioned ` set (tempest_modules CONF) \<and>
           (\<exists>d. service_client_config CONF n = Inr d)) \<and>
        (\<forall>n r. configuration st n = Some r \<longrightarrow>
           r < length h' \<and> service_client_config CONF n = Inr (h' ! r)) \<and>
        (\<forall>n d. service_client_config CONF n = Inr d \<longrightarrow> count_list (fetches st) n \<le> 1) \<and>
        (\<forall>s \<in> set (tempest_modules CONF).
           (\<exists>x. service_client_config CONF (unversioned s) = Inl (UnknownServiceClient x)) \<longrightarrow>
           configuration st (unversioned s) = None \<and>
           ''Could not load configuration for service '' @ s \<in> set (warnings st))"
    using r t d stored once absent by blast
next
  fix e x
  assume "prepare_configuration CONF h = Inl e"
  then show "e \<noteq> UnknownServiceClient x"
    unfolding prepare_configuration_def using prepare_services_error by blast
qed

theorem prepare_configuration_best_effort_witness:
  "only_unknown sample_conf (tempest_modules sample_conf) \<and>
   ''identity.v3'' \<in> set (tempest_modules sample_conf) \<and>
   ''telemetry'' \<in> set (tempest_modules sample_conf) \<and>
   service_client_config sample_conf (unversioned ''telemetry'')
     = Inl (UnknownServiceClient ''telemetry'') \<and>
   (\<exists>st h'. prepare_configuration sample_conf [] = Inr (st, h') \<and>
      configuration st ''telemetry'' = None \<and>
      ''Could not load configuration for service telemetry'' \<in> set (warnings st) \<and>
      (\<exists>r. configuration st ''identity'' = Some r \<and> r < length h' \<and>
           h' ! r = sample_params ''identity'') \<and>
      count_list (fetches st) ''identity'' \<le> 1)"
proof -
  have u: "unversioned ''telemetry'' = ''telemetry''" "unversioned ''identity.v3'' = ''identity''"
    by (simp_all add: unversioned_def)
  have m: "''identity.v3'' \<in> set (tempest_modules sample_conf)"
    "''telemetry'' \<in> set (tempest_modules sample_conf)"
    by (simp_all add: sample_conf_def)
  have k: "service_client_config sample_conf ''telemetry'' = Inl (UnknownServiceClient ''telemetry'')"
    "service_client_config sample_conf ''identity'' = Inr (sample_params ''identity'')"
    by (simp_all add: sample_conf_def sample_service_client_config_def)
  note T = prepare_configuration_best_effort
             [of sample_conf "[]", THEN conjunct1, THEN mp, OF only_unknown_sample]
  from T show ?thesis
  proof (elim exE conjE)
    fix st h'
    assume r: "prepare_configuration sample_conf [] = Inr (st, h')"
      and d: "\<forall>n. configuration st n \<noteq> None \<longleftrightarrow>
           n \<in> unversioned ` set (tempest_modules sample_conf) \<and>
           (\<exists>d. service_client_config sample_conf n = Inr d)"
      and s: "\<forall>n r. configuration st n = Some r \<longrightarrow>
           r < length h' \<and> service_client_config sample_conf n = Inr (h' ! r)"
      and o: "\<forall>n d. service_client_config sample_conf n = Inr d \<longrightarrow>
           count_list (fetches st) n \<le> 1"
      and a: "\<forall>s \<in> set (tempest_modules sample_conf).
           (\<exists>x. service_client_config sample_conf (unversioned s)
                  = Inl (UnknownServiceClient x)) \<longrightarrow>
           configuration st (unversioned s) = None \<and>
           ''Could not load configuration for service '' @ s \<in> set (warnings st)"
    from a m(2) have "(\<exists>x. service_client_config sample_conf (unversioned ''telemetry'')
                    = Inl (UnknownServiceClient x)) \<longrightarrow>
             configuration st (unversioned ''telemetry'') = None \<and>
             ''Could not load configuration for service '' @ ''telemetry'' \<in> set (warnings st)"
      by (rule bspec)
    with k(1) have t: "configuration st ''telemetry'' = None"
      "''Could not load configuration for service telemetry'' \<in> set (warnings st)"
      by (simp_all add: u(1))
    from m(1) have "unversioned ''identity.v3'' \<in> unversioned ` set (tempest_modules sample_conf)"
      by (rule imageI)
    then have "''identity'' \<in> unversioned ` set (tempest_modules sample_conf)"
      by (simp only: u(2))
    with d k(2) have "configuration st ''identity'' \<noteq> None" by metis
    then obtain r where i: "configuration st ''identity'' = Some r" by auto
    with s k(2) have i2: "r < length h'" "h' ! r = sample_params ''identity''" by auto
    from o k(2) have c: "count_list (fetches st) ''identity'' \<le> 1" by metis
    from r t i i2 c have "\<exists>st h'. prepare_configuration sample_conf [] = Inr (st, h') \<and>
        configuration st ''telemetry'' = None \<and>
        ''Could not load configuration for service telemetry'' \<in> set (warnings st) \<and>
        (\<exists>r. configuration st ''identity'' = Some r \<and> r < length h' \<and>
             h' ! r = sample_params ''identity'') \<and>
        count_list (fetches st) ''identity'' \<le> 1"
      by (intro exI conjI)
    with only_unknown_sample m k(1) u(1) show ?thesis by simp
  qed
qed

section \<open>Construction without credentials\<close>

text \<open>
  C5. With \<^verbatim>\<open>credentials\<close> \<^verbatim>\<open>None\<close>, \<^verbatim>\<open>get_auth_provider\<close> raises \<^verbatim>\<open>InvalidCredentials\<close>, and
  Manager construction (its base class constructor modelled from the spec) fails with
  \<^verbatim>\<open>InvalidCredentials\<close> with no client attribute set, once the configuration has been
  resolved (the configuration subsystem raising nothing but unknown-service errors).
\<close>

theorem Manager_init_without_credentials:
  "get_auth_provider CONF PyNone pre_auth scope
     = Inl (InvalidCredentials ''Credentials must be specified'') \<and>
   (only_unknown CONF (tempest_modules CONF) \<longrightarrow>
      (\<exists>msg. Manager_init CONF providers h PyNone service scope
         = Failed (InvalidCredentials msg) Map.empty))"
proof (intro conjI impI)
  show "get_auth_provider CONF PyNone pre_auth scope
     = Inl (InvalidCredentials ''Credentials must be specified'')"
    by (simp add: get_auth_provider_def)
next
  assume ok: "only_unknown CONF (tempest_modules CONF)"
  have "prep_inv CONF \<lparr>configuration = Map.empty, warnings = [], fetches = []\<rparr> h"
    by (simp add: prep_inv_def)
  from prepare_services_correct [OF ok this] obtain st h' where
    "prepare_configuration CONF h = Inr (st, h')"
    unfolding prepare_configuration_def by blast
  then show "\<exists>msg. Manager_init CONF providers h PyNone service scope
         = Failed (InvalidCredentials msg) Map.empty"
    by (simp add: Manager_init_def ServiceClients_init_def split: prod.splits)
qed

theorem Manager_init_without_credentials_witness:
  "only_unknown sample_conf (tempest_modules sample_conf) \<and>
   (\<exists>msg. Manager_init sample_conf [] [] PyNone PNone (PStr ''project'')
      = Failed (InvalidCredentials msg) Map.empty)"
  using Manager_init_without_credentials
          [of sample_conf False "PStr ''project''" "[]" "[]" PNone]
    only_unknown_sample
  by simp

end
